theory Spec2Isabelle
  imports Main
begin

section \<open>Reward handlers and the random source\<close>

text \<open>
  The reward system of the server hands out \<open>FRewardHandler\<close> values: a reward type, the
  row name of the rewarded thing, a signed amount and the source the reward was acquired
  from. The enumerations are declared in headers that are not part of the sources at hand;
  the constructors below are the values the sources name (\<open>EReward::None\<close>,
  \<open>EReward::Item\<close>, \<open>EReward::RewardData\<close>, \<open>ERewardSource::None\<close>) and the other
  variants the specification lists. The 32-bit integers of the sources are modelled as
  unbounded integers: the model describes the runs in which no counter, weight sum or
  amount leaves the 32-bit range.
\<close>

datatype EReward =
  EReward_None | EReward_Currency | EReward_Item | EReward_PlayerCharacter | EReward_RewardData

datatype ERewardSource = ERewardSource_None | ERewardSource_Other nat

type_synonym FName = string

definition NAME_None :: FName where
  "NAME_None = ''None''"

record FRewardHandler =
  RewardType :: EReward
  TypeRowName :: FName
  Amount :: int
  AcquireSource :: ERewardSource

text \<open>
  \<open>FRewardHandler(type, name, amount)\<close>: the three-argument constructor. The acquire source
  it leaves is the default of the class, \<open>ERewardSource::None\<close>.
\<close>

definition MakeRewardHandler :: "EReward \<Rightarrow> FName \<Rightarrow> int \<Rightarrow> FRewardHandler" where
  "MakeRewardHandler t n a =
     \<lparr>RewardType = t, TypeRowName = n, Amount = a, AcquireSource = ERewardSource_None\<rparr>"

datatype error = NullDereference

text \<open>
  \<open>FMath::RandRange(Min, Max)\<close> is a function of the engine: it returns \<open>Min\<close> plus a
  random number below \<open>Max - Min + 1\<close>, and \<open>Min\<close> itself when that range is empty. The
  random source is a tape of naturals; a call reads the head of the tape and moves on.
  Every value of \<open>[Min, Max]\<close> is returned for some tape.
\<close>

type_synonym RandomStream = "nat \<Rightarrow> nat"

definition RandRange :: "int \<Rightarrow> int \<Rightarrow> RandomStream \<Rightarrow> int \<times> RandomStream" where
  "RandRange InMin InMax g =
     (let Range = (InMax - InMin) + 1
      in ((if 0 < Range then InMin + int (g 0) mod Range else InMin), (\<lambda>i. g (Suc i))))"

section \<open>Gacha: pools, pickup rewards and the weighted roll\<close>

record URewardGachaRandomData =
  Weight :: int
  PickupGroup :: int
  Reward :: FRewardHandler

record URewardRandomData =
  RandomWeight :: int
  RandomReward :: FRewardHandler

text \<open>
  A row of the reward table. The entries of \<open>GachaRandoms\<close> and \<open>Randoms\<close> are object
  pointers: \<open>None\<close> is the null pointer.
\<close>

record URewardData =
  RewardGroupName :: FName
  Statics :: "FRewardHandler list"
  Randoms :: "URewardRandomData option list"
  TotalWeight :: int
  GachaRandoms :: "URewardGachaRandomData option list"
  TotalGachaWeight :: int

record FGachaCampaignData =
  RewardGroupRowName :: FName
  NormalPickupGroup :: int
  SpecialPickupGroup :: int
  SpecialTryCount :: int

text \<open>
  The first loop of \<open>AddPickupReward\<close>: the entries that are not null and whose pickup
  group is at least \<open>InPickupGroup\<close>, in table order.
\<close>

fun CollectPickup ::
  "URewardGachaRandomData option list \<Rightarrow> int \<Rightarrow> URewardGachaRandomData list" where
  "CollectPickup [] InPickupGroup = []"
| "CollectPickup (None # rest) InPickupGroup = CollectPickup rest InPickupGroup"
| "CollectPickup (Some Data # rest) InPickupGroup =
     (if InPickupGroup \<le> PickupGroup Data
      then Data # CollectPickup rest InPickupGroup
      else CollectPickup rest InPickupGroup)"

definition AddPickupReward ::
  "URewardData option \<Rightarrow> int \<Rightarrow> RandomStream \<Rightarrow> FRewardHandler \<times> RandomStream" where
  "AddPickupReward InRewardData InPickupGroup g =
     (case InRewardData of
        None \<Rightarrow> (MakeRewardHandler EReward_None NAME_None 0, g)
      | Some rd \<Rightarrow>
          (let GachaRandomsData = CollectPickup (GachaRandoms rd) InPickupGroup
           in if GachaRandomsData = []
              then (MakeRewardHandler EReward_None NAME_None 0, g)
              else (case RandRange 0 (int (length GachaRandomsData) - 1) g of
                      (Index, g') \<Rightarrow> (Reward (GachaRandomsData ! nat Index), g'))))"

text \<open>
  The loop of \<open>RollRandomReward\<close>, from the accumulated weight \<open>CurrentWeight\<close>: the first
  entry at which the accumulated weight reaches \<open>RandomNumber\<close>, \<open>None\<close> when the loop
  runs off the table. The loop reads every entry it visits without a null check.
\<close>

fun RollWalk ::
  "URewardGachaRandomData option list \<Rightarrow> int \<Rightarrow> int
     \<Rightarrow> error + URewardGachaRandomData option" where
  "RollWalk [] CurrentWeight RandomNumber = Inr None"
| "RollWalk (None # rest) CurrentWeight RandomNumber = Inl NullDereference"
| "RollWalk (Some GachaReward # rest) CurrentWeight RandomNumber =
     (if RandomNumber \<le> CurrentWeight + Weight GachaReward
      then Inr (Some GachaReward)
      else RollWalk rest (CurrentWeight + Weight GachaReward) RandomNumber)"

text \<open>
  \<open>RollRandomReward\<close> after its first line, for the number \<open>RandomNumber\<close> drawn there.
  The result is the reward and the value of the in-out parameter \<open>OutPickupGroup\<close>.
\<close>

definition RollRandomReward_drawn ::
  "URewardData \<Rightarrow> int \<Rightarrow> int \<Rightarrow> error + FRewardHandler \<times> int" where
  "RollRandomReward_drawn InRewardData RandomNumber OutPickupGroup =
     (case RollWalk (GachaRandoms InRewardData) 0 RandomNumber of
        Inl e \<Rightarrow> Inl e
      | Inr (Some GachaReward) \<Rightarrow> Inr (Reward GachaReward, PickupGroup GachaReward)
      | Inr None \<Rightarrow> Inr (MakeRewardHandler EReward_None NAME_None 0, OutPickupGroup))"

definition RollRandomReward ::
  "URewardData \<Rightarrow> int \<Rightarrow> RandomStream \<Rightarrow> error + FRewardHandler \<times> int \<times> RandomStream" where
  "RollRandomReward InRewardData OutPickupGroup g =
     (case RandRange 1 (TotalGachaWeight InRewardData) g of
        (RandomNumber, g') \<Rightarrow>
          (case RollRandomReward_drawn InRewardData RandomNumber OutPickupGroup of
             Inl e \<Rightarrow> Inl e
           | Inr (r, OutPickupGroup') \<Rightarrow> Inr (r, OutPickupGroup', g')))"

section \<open>Gacha: the draw loop and the pity counters\<close>

text \<open>
  What the loop of \<open>OnPostGive_Gacha\<close> reads and writes: the three counters of the reward
  system, the array \<open>RewardHandlers\<close> and the random source.
\<close>

record GachaState =
  TotalPickupCount :: int
  NormalPickupCounter :: int
  SpecialPickupCounter :: int
  RewardHandlers :: "FRewardHandler list"
  Random :: RandomStream

text \<open>One iteration of the loop.\<close>

definition GachaDraw ::
  "FGachaCampaignData \<Rightarrow> URewardData \<Rightarrow> GachaState \<Rightarrow> error + GachaState" where
  "GachaDraw CampaignData RewardData st =
     (let total = TotalPickupCount st + 1;
          normal = NormalPickupCounter st + 1;
          special = SpecialPickupCounter st + 1
      in if 0 < SpecialPickupGroup CampaignData \<and> SpecialTryCount CampaignData \<le> special
         then (case AddPickupReward (Some RewardData) (SpecialPickupGroup CampaignData) (Random st) of
                 (r, g') \<Rightarrow>
                   Inr \<lparr>TotalPickupCount = total, NormalPickupCounter = 0,
                        SpecialPickupCounter = 0,
                        RewardHandlers = RewardHandlers st @ [r], Random = g'\<rparr>)
         else if 0 < NormalPickupGroup CampaignData \<and> 10 \<le> normal
         then (case AddPickupReward (Some RewardData) (NormalPickupGroup CampaignData) (Random st) of
                 (r, g') \<Rightarrow>
                   Inr \<lparr>TotalPickupCount = total, NormalPickupCounter = 0,
                        SpecialPickupCounter = special,
                        RewardHandlers = RewardHandlers st @ [r], Random = g'\<rparr>)
         else (case RollRandomReward RewardData 0 (Random st) of
                 Inl e \<Rightarrow> Inl e
               | Inr (r, PickupGroup', g') \<Rightarrow>
                   Inr \<lparr>TotalPickupCount = total,
                        NormalPickupCounter =
                          (if SpecialPickupGroup CampaignData \<le> PickupGroup' then 0
                           else if NormalPickupGroup CampaignData \<le> PickupGroup' then 0
                           else normal),
                        SpecialPickupCounter =
                          (if SpecialPickupGroup CampaignData \<le> PickupGroup' then 0 else special),
                        RewardHandlers = RewardHandlers st @ [r], Random = g'\<rparr>))"

text \<open>
  The loop \<open>for (Index = 0; Index < PickupCount; ++Index)\<close>, by the number of iterations
  that are left. A null dereference ends the run.
\<close>

fun GachaLoop ::
  "FGachaCampaignData \<Rightarrow> URewardData \<Rightarrow> nat \<Rightarrow> GachaState \<Rightarrow> error + GachaState" where
  "GachaLoop CampaignData RewardData 0 st = Inr st"
| "GachaLoop CampaignData RewardData (Suc k) st =
     (case GachaDraw CampaignData RewardData st of
        Inl e \<Rightarrow> Inl e
      | Inr st' \<Rightarrow> GachaLoop CampaignData RewardData k st')"

text \<open>
  A reward is granted at tier \<open>thr\<close> or above when it is the reward of an entry of the pool
  whose pickup group is at least \<open>thr\<close>.
\<close>

definition GrantsTier :: "URewardData \<Rightarrow> int \<Rightarrow> FRewardHandler \<Rightarrow> bool" where
  "GrantsTier RewardData thr r =
     list_ex (\<lambda>x. case x of None \<Rightarrow> False
                   | Some Data \<Rightarrow> thr \<le> PickupGroup Data \<and> Reward Data = r)
       (GachaRandoms RewardData)"

text \<open>The pool of the weighted roll's documentation: A, B and C with weights 70, 25 and 5.\<close>

definition RewardA :: URewardGachaRandomData where
  "RewardA = \<lparr>Weight = 70, PickupGroup = 1, Reward = MakeRewardHandler EReward_Item ''A'' 1\<rparr>"

definition RewardB :: URewardGachaRandomData where
  "RewardB = \<lparr>Weight = 25, PickupGroup = 2, Reward = MakeRewardHandler EReward_Item ''B'' 1\<rparr>"

definition RewardC :: URewardGachaRandomData where
  "RewardC = \<lparr>Weight = 5, PickupGroup = 3, Reward = MakeRewardHandler EReward_Item ''C'' 1\<rparr>"

definition ExamplePool :: URewardData where
  "ExamplePool =
     \<lparr>RewardGroupName = ''Example'', Statics = [], Randoms = [], TotalWeight = 0,
      GachaRandoms = [Some RewardA, Some RewardB, Some RewardC], TotalGachaWeight = 100\<rparr>"

text \<open>A pool whose last entry has weight zero: the weights still sum up to the total.\<close>

definition ZeroTailPool :: URewardData where
  "ZeroTailPool =
     \<lparr>RewardGroupName = ''ZeroTail'', Statics = [], Randoms = [], TotalWeight = 0,
      GachaRandoms = [Some RewardC, Some (RewardA\<lparr>Weight := 0\<rparr>)], TotalGachaWeight = 5\<rparr>"

text \<open>The pool has an entry (not null) whose pickup group is at least \<open>thr\<close>.\<close>

definition HasTier :: "URewardData \<Rightarrow> int \<Rightarrow> bool" where
  "HasTier RewardData thr =
     list_ex (\<lambda>x. case x of None \<Rightarrow> False | Some Data \<Rightarrow> thr \<le> PickupGroup Data)
       (GachaRandoms RewardData)"

section \<open>Gacha: one request\<close>

text \<open>
  \<open>OnPostGive_Gacha\<close> reads the reward table and the campaign table, loads the two pity
  counters of the reward row from the save game, runs the draw loop, hands the rewards to
  the reward manager and stores the counters. The world of a request: the counters of the
  reward system with the random source (and the array \<open>RewardHandlers\<close> of the last
  draw loop), the saved counters per reward row, and the batches handed to
  \<open>URewardManager::GiveRewards\<close>.
\<close>

record GachaWorld =
  Members :: GachaState
  GachaCounterSave :: "FName \<Rightarrow> (int \<times> int) option"
  GivenRewards :: "FRewardHandler list list"

text \<open>
  The visit of the campaign table: every row whose reward group matches overwrites the
  result, so the last matching row is the campaign.
\<close>

fun FindCampaign ::
  "FGachaCampaignData list \<Rightarrow> FName \<Rightarrow> FGachaCampaignData option \<Rightarrow> FGachaCampaignData option"
  where
  "FindCampaign [] RewardGroup CampaignData = CampaignData"
| "FindCampaign (Data # rest) RewardGroup CampaignData =
     (if RewardGroupRowName Data = RewardGroup
      then FindCampaign rest RewardGroup (Some Data)
      else FindCampaign rest RewardGroup CampaignData)"

text \<open>
  Modelled from the spec: the pity store of the save game (\<open>UContentsAlarmSave\<close>, outside
  the sources at hand) keeps the pair of counters of a reward row across requests;
  \<open>GetGachaCounter\<close> loads the pair and leaves the zeros the caller has set when the store
  has none, \<open>SetGachaCounter\<close> stores the pair.
\<close>

definition GetGachaCounter :: "(FName \<Rightarrow> (int \<times> int) option) \<Rightarrow> FName \<Rightarrow> int \<times> int" where
  "GetGachaCounter save name = (case save name of None \<Rightarrow> (0, 0) | Some ns \<Rightarrow> ns)"

definition OnPostGive_Gacha ::
  "(FName \<Rightarrow> URewardData option) \<Rightarrow> FGachaCampaignData list \<Rightarrow> FRewardHandler
     \<Rightarrow> GachaWorld \<Rightarrow> error + GachaWorld" where
  "OnPostGive_Gacha RewardDataTable CampaignTable InReward w =
     (case RewardDataTable (TypeRowName InReward) of
        None \<Rightarrow> Inr w
      | Some RewardData \<Rightarrow>
          (case FindCampaign CampaignTable (RewardGroupName RewardData) None of
             None \<Rightarrow> Inr w
           | Some CampaignData \<Rightarrow>
               (case GetGachaCounter (GachaCounterSave w) (TypeRowName InReward) of
                  (normal, special) \<Rightarrow>
                    (let loaded = (Members w)\<lparr>NormalPickupCounter := normal,
                                                SpecialPickupCounter := special\<rparr>;
                         PickupCount = Amount InReward
                     in if TotalGachaWeight RewardData \<le> 0 \<or> PickupCount \<le> 0
                        then Inr (w\<lparr>Members := loaded\<rparr>)
                        else (case GachaLoop CampaignData RewardData (nat PickupCount)
                                     (loaded\<lparr>RewardHandlers := []\<rparr>) of
                                Inl e \<Rightarrow> Inl e
                              | Inr st \<Rightarrow>
                                  Inr \<lparr>Members = st,
                                       GachaCounterSave = (GachaCounterSave w)
                                         (TypeRowName InReward \<mapsto>
                                            (NormalPickupCounter st, SpecialPickupCounter st)),
                                       GivenRewards =
                                         (if int (length (RewardHandlers st)) = PickupCount
                                          then GivenRewards w @ [RewardHandlers st]
                                          else GivenRewards w)\<rparr>)))))"

section \<open>Gacha: example configurations\<close>

text \<open>
  A fresh state over the tape of zeros, and campaigns for the example pool, whose pickup
  groups are 1, 2 and 3: two whose tiers the pool has, two whose tiers it lacks, and one
  with the special tier switched off.
\<close>

definition InitialGachaState :: GachaState where
  "InitialGachaState =
     \<lparr>TotalPickupCount = 0, NormalPickupCounter = 0, SpecialPickupCounter = 0,
      RewardHandlers = [], Random = (\<lambda>i. 0)\<rparr>"

definition ExampleCampaign :: FGachaCampaignData where
  "ExampleCampaign =
     \<lparr>RewardGroupRowName = ''Example'', NormalPickupGroup = 2, SpecialPickupGroup = 3,
      SpecialTryCount = 2\<rparr>"

definition LongCampaign :: FGachaCampaignData where
  "LongCampaign =
     \<lparr>RewardGroupRowName = ''Example'', NormalPickupGroup = 2, SpecialPickupGroup = 3,
      SpecialTryCount = 90\<rparr>"

definition UnmatchedCampaign :: FGachaCampaignData where
  "UnmatchedCampaign =
     \<lparr>RewardGroupRowName = ''Example'', NormalPickupGroup = 4, SpecialPickupGroup = 5,
      SpecialTryCount = 1\<rparr>"

definition UnmatchedLongCampaign :: FGachaCampaignData where
  "UnmatchedLongCampaign =
     \<lparr>RewardGroupRowName = ''Example'', NormalPickupGroup = 4, SpecialPickupGroup = 5,
      SpecialTryCount = 90\<rparr>"

definition NormalOnlyCampaign :: FGachaCampaignData where
  "NormalOnlyCampaign =
     \<lparr>RewardGroupRowName = ''Example'', NormalPickupGroup = 2, SpecialPickupGroup = 0,
      SpecialTryCount = 0\<rparr>"

section \<open>Reward expansion\<close>

text \<open>
  What \<open>BuildRewardData\<close> reads and writes besides the tables: the array
  \<open>InRewardHandlers\<close> and the random source.
\<close>

type_synonym BuildState = "FRewardHandler list \<times> RandomStream"

text \<open>
  The loop over \<open>Randoms\<close> in \<open>BuildRewardData\<close>, from the accumulated value
  \<open>CurrentValue\<close>: the reward of the first entry at which the accumulated weight reaches
  \<open>RandomNumber\<close>, where the loop breaks. The loop reads every entry it visits without a
  null check.
\<close>

fun SelectRandom ::
  "URewardRandomData option list \<Rightarrow> int \<Rightarrow> int \<Rightarrow> error + FRewardHandler option" where
  "SelectRandom [] CurrentValue RandomNumber = Inr None"
| "SelectRandom (None # rest) CurrentValue RandomNumber = Inl NullDereference"
| "SelectRandom (Some R # rest) CurrentValue RandomNumber =
     (if RandomNumber \<le> CurrentValue + RandomWeight R
      then Inr (Some (RandomReward R))
      else SelectRandom rest (CurrentValue + RandomWeight R) RandomNumber)"

text \<open>
  \<open>BuildRewardData\<close> calls itself through the lambda \<open>AddReward\<close>, with no bound on the
  depth. In the model the recursive call is the parameter \<open>build\<close>, and
  \<open>BuildRewardData\<close> takes the number of nested calls it may make: the result \<open>None\<close>
  says that the run has not returned within that depth. A result \<open>Some (Inl e)\<close> is a run
  that ended in the error \<open>e\<close>; a result \<open>Some (Inr (b, s))\<close> is a run that returned
  \<open>b\<close> and left the handlers and the random source \<open>s\<close>.

  The loop \<open>for (i = 0; i < Handler.Amount; ++i)\<close> of the lambda, whose calls discard the
  value \<open>BuildRewardData\<close> returns:
\<close>

primrec RepeatBuild ::
  "(BuildState \<Rightarrow> (error + bool \<times> BuildState) option) \<Rightarrow> nat \<Rightarrow> BuildState
     \<Rightarrow> (error + BuildState) option" where
  "RepeatBuild build 0 s = Some (Inr s)"
| "RepeatBuild build (Suc n) s =
     (case build s of
        None \<Rightarrow> None
      | Some (Inl e) \<Rightarrow> Some (Inl e)
      | Some (Inr (b, s')) \<Rightarrow> RepeatBuild build n s')"

text \<open>
  The lambda \<open>AddReward\<close>: a handler of type \<open>RewardData\<close> is looked up in the reward
  table and built \<open>Amount\<close> times, any other handler is appended.
\<close>

definition AddReward ::
  "(URewardData option \<Rightarrow> BuildState \<Rightarrow> (error + bool \<times> BuildState) option)
     \<Rightarrow> (FName \<Rightarrow> URewardData option) \<Rightarrow> FRewardHandler \<Rightarrow> BuildState
     \<Rightarrow> (error + BuildState) option" where
  "AddReward build RewardDataTable Handler s =
     (if RewardType Handler = EReward_RewardData
      then RepeatBuild (build (RewardDataTable (TypeRowName Handler))) (nat (Amount Handler)) s
      else Some (Inr (fst s @ [Handler], snd s)))"

text \<open>The loop over \<open>Statics\<close>.\<close>

fun AddStatics ::
  "(URewardData option \<Rightarrow> BuildState \<Rightarrow> (error + bool \<times> BuildState) option)
     \<Rightarrow> (FName \<Rightarrow> URewardData option) \<Rightarrow> FRewardHandler list \<Rightarrow> BuildState
     \<Rightarrow> (error + BuildState) option" where
  "AddStatics build RewardDataTable [] s = Some (Inr s)"
| "AddStatics build RewardDataTable (RewardHandler # rest) s =
     (case AddReward build RewardDataTable RewardHandler s of
        None \<Rightarrow> None
      | Some (Inl e) \<Rightarrow> Some (Inl e)
      | Some (Inr s') \<Rightarrow> AddStatics build RewardDataTable rest s')"

text \<open>The body of \<open>BuildRewardData\<close>, over the recursive call \<open>build\<close>.\<close>

definition BuildRewardData_body ::
  "(URewardData option \<Rightarrow> BuildState \<Rightarrow> (error + bool \<times> BuildState) option)
     \<Rightarrow> (FName \<Rightarrow> URewardData option) \<Rightarrow> URewardData option \<Rightarrow> BuildState
     \<Rightarrow> (error + bool \<times> BuildState) option" where
  "BuildRewardData_body build RewardDataTable InRewardData s =
     (case InRewardData of
        None \<Rightarrow> Some (Inr (False, s))
      | Some d \<Rightarrow>
          (case AddStatics build RewardDataTable (Statics d) s of
             None \<Rightarrow> None
           | Some (Inl e) \<Rightarrow> Some (Inl e)
           | Some (Inr s1) \<Rightarrow>
               if Randoms d = [] then Some (Inr (fst s1 \<noteq> [], s1))
               else (case RandRange 1 (TotalWeight d) (snd s1) of
                       (RandomNumber, g') \<Rightarrow>
                         (case SelectRandom (Randoms d) 0 RandomNumber of
                            Inl e \<Rightarrow> Some (Inl e)
                          | Inr None \<Rightarrow> Some (Inr (fst s1 \<noteq> [], (fst s1, g')))
                          | Inr (Some Handler) \<Rightarrow>
                              (case AddReward build RewardDataTable Handler (fst s1, g') of
                                 None \<Rightarrow> None
                               | Some (Inl e) \<Rightarrow> Some (Inl e)
                               | Some (Inr s2) \<Rightarrow> Some (Inr (fst s2 \<noteq> [], s2)))))))"

primrec BuildRewardData ::
  "nat \<Rightarrow> (FName \<Rightarrow> URewardData option) \<Rightarrow> URewardData option \<Rightarrow> BuildState
     \<Rightarrow> (error + bool \<times> BuildState) option" where
  "BuildRewardData 0 RewardDataTable InRewardData s = None"
| "BuildRewardData (Suc depth) RewardDataTable InRewardData s =
     BuildRewardData_body (BuildRewardData depth RewardDataTable) RewardDataTable InRewardData s"

text \<open>
  The handlers a row can expand: its static rewards and the rewards of its random entries.
  A table is layered by \<open>rank\<close> when every handler of type \<open>RewardData\<close> in a row names
  a row of lower rank: the table has no cycle of references.
\<close>

fun RandomRewards :: "URewardRandomData option list \<Rightarrow> FRewardHandler list" where
  "RandomRewards [] = []"
| "RandomRewards (None # rest) = RandomRewards rest"
| "RandomRewards (Some R # rest) = RandomReward R # RandomRewards rest"

definition RewardRefs :: "URewardData \<Rightarrow> FRewardHandler list" where
  "RewardRefs d = Statics d @ RandomRewards (Randoms d)"

definition Layered :: "(FName \<Rightarrow> URewardData option) \<Rightarrow> (FName \<Rightarrow> nat) \<Rightarrow> bool" where
  "Layered RewardDataTable rank \<longleftrightarrow>
     (\<forall>k d. RewardDataTable k = Some d \<longrightarrow>
        (\<forall>h\<in>set (RewardRefs d).
           RewardType h = EReward_RewardData \<longrightarrow> rank (TypeRowName h) < rank k))"

text \<open>
  The rows of the keys \<open>ks\<close> form a cycle through their static rewards when every key
  has a row whose first static reward of type \<open>RewardData\<close> has a positive amount and
  names a key of \<open>ks\<close> again, as where A references B and B references A.
\<close>

definition StaticCycle :: "(FName \<Rightarrow> URewardData option) \<Rightarrow> FName list \<Rightarrow> bool" where
  "StaticCycle RewardDataTable ks \<longleftrightarrow>
     list_all (\<lambda>k. case RewardDataTable k of
                     None \<Rightarrow> False
                   | Some d \<Rightarrow>
                       (case dropWhile (\<lambda>h. RewardType h \<noteq> EReward_RewardData) (Statics d) of
                          [] \<Rightarrow> False
                        | h # rest \<Rightarrow> 0 < Amount h \<and> TypeRowName h \<in> set ks)) ks"

text \<open>
  \<open>new\<close> is \<open>old\<close> followed by handlers none of which is of type \<open>RewardData\<close>.
\<close>

definition AtomicExtension :: "FRewardHandler list \<Rightarrow> FRewardHandler list \<Rightarrow> bool" where
  "AtomicExtension old new \<longleftrightarrow>
     length old \<le> length new \<and> take (length old) new = old
     \<and> list_all (\<lambda>h. RewardType h \<noteq> EReward_RewardData) (drop (length old) new)"

text \<open>
  Two tables: a bundle that holds coins, two packs of one potion each and one random
  reward; and two rows that reference each other.
\<close>

definition PackRow :: URewardData where
  "PackRow = \<lparr>RewardGroupName = ''Pack'', Statics = [MakeRewardHandler EReward_Item ''Potion'' 1],
     Randoms = [], TotalWeight = 0, GachaRandoms = [], TotalGachaWeight = 0\<rparr>"

definition BundleRow :: URewardData where
  "BundleRow = \<lparr>RewardGroupName = ''Bundle'',
     Statics = [MakeRewardHandler EReward_Currency ''Coin'' 10,
                MakeRewardHandler EReward_RewardData ''Pack'' 2],
     Randoms = [Some \<lparr>RandomWeight = 1, RandomReward = MakeRewardHandler EReward_Item ''Gem'' 1\<rparr>],
     TotalWeight = 1, GachaRandoms = [], TotalGachaWeight = 0\<rparr>"

definition BundleTable :: "FName \<Rightarrow> URewardData option" where
  "BundleTable k = (if k = ''Bundle'' then Some BundleRow
                    else if k = ''Pack'' then Some PackRow else None)"

definition BundleRank :: "FName \<Rightarrow> nat" where
  "BundleRank k = (if k = ''Bundle'' then 1 else 0)"

definition CycleRowA :: URewardData where
  "CycleRowA = \<lparr>RewardGroupName = ''A'', Statics = [MakeRewardHandler EReward_RewardData ''B'' 1],
     Randoms = [], TotalWeight = 0, GachaRandoms = [], TotalGachaWeight = 0\<rparr>"

definition CycleRowB :: URewardData where
  "CycleRowB = \<lparr>RewardGroupName = ''B'', Statics = [MakeRewardHandler EReward_RewardData ''A'' 1],
     Randoms = [], TotalWeight = 0, GachaRandoms = [], TotalGachaWeight = 0\<rparr>"

definition CycleTable :: "FName \<Rightarrow> URewardData option" where
  "CycleTable k = (if k = ''A'' then Some CycleRowA
                   else if k = ''B'' then Some CycleRowB else None)"

section \<open>Inventory: 32-bit amounts\<close>

text \<open>
  The amounts and slot counts of the inventory functions are \<open>int32\<close>. They are kept as
  integers; \<open>Int32\<close> is the value a sum, a difference, a negation or a product has as an
  \<open>int32\<close> on the two's complement machines the server runs on, where it wraps around,
  and \<open>InInt32\<close> says that an integer is the value of an \<open>int32\<close>.
\<close>

definition Int32 :: "int \<Rightarrow> int" where
  "Int32 x = (x + 2147483648) mod 4294967296 - 2147483648"

definition InInt32 :: "int \<Rightarrow> bool" where
  "InInt32 x \<longleftrightarrow> - 2147483648 \<le> x \<and> x \<le> 2147483647"

section \<open>Inventory: items and the world the simulation reads\<close>

text \<open>
  The item row (\<open>FItemBaseData\<close>), the net item (\<open>UNetItem\<close>) and its options
  (\<open>UNetItemOption\<close>, built from \<open>UEquipmentSubOptionData\<close>) are declared in headers
  outside the sources at hand: a row carries the fields and the answers of the methods the
  sources use (\<open>MaxStackAmount\<close>, \<open>IsNonStackable()\<close>, \<open>RequiresInventorySlot()\<close>), a
  net item its identifiers, its \<open>Amount\<close> (here \<open>ItemAmount\<close>), the pointer to its row
  and its options, an option its identifier and its value, a sub-option the answer of
  \<open>GetEffectRowID()\<close> and its \<open>EffectValue\<close>. The creation date of a net item is left
  out.
\<close>

record FItemBaseData =
  MaxStackAmount :: int
  IsNonStackable :: bool
  RequiresInventorySlot :: bool

record UNetItemOption =
  OptionID :: int
  OptionValue :: int

record UEquipmentSubOptionData =
  EffectRowID :: int
  EffectValue :: int

record UNetItem =
  ItemID :: int
  ItemUID :: int
  ItemAmount :: int
  ItemData :: "FItemBaseData option"
  Options :: "UNetItemOption list"

datatype EItem = EItem_Equip | EItem_Other nat

text \<open>
  What the inventory functions ask of the rest of the server: the item table by row name
  and by item identifier, the slot count, the capacity and the held amounts of the user's
  inventory, the admissibility check \<open>URewardManager::Simulate\<close>, whether an equipment
  row references an item (\<open>UUserData_Equipment::GetEquipmentBy(id) != nullptr\<close>), the
  account, the held net item of an item identifier (\<open>DuplicateNetItemByID\<close>, \<open>None\<close>
  for the null pointer), the row identifier the database gives to an inserted item
  (\<open>GetLastInsertRowId()\<close>), the type of a net item (\<open>GetItemType()\<close>) and the
  sub-options \<open>UEquipmentSubOptionDataTable::BuildOptions\<close> draws for a row (\<open>None\<close>
  for a null entry).
\<close>

record InventoryWorld =
  ItemRowByName :: "FName \<Rightarrow> FItemBaseData option"
  ItemRowByID :: "int \<Rightarrow> FItemBaseData option"
  GetItemSlotCount :: int
  GetMaxCapacity :: int
  GetAmount :: "FName \<Rightarrow> int"
  Simulate :: "FRewardHandler \<Rightarrow> bool"
  GetEquipmentBy :: "int \<Rightarrow> bool"
  AccountID :: int
  DuplicateNetItemByID :: "int \<Rightarrow> UNetItem option"
  GetLastInsertRowId :: int
  GetItemType :: "UNetItem \<Rightarrow> EItem"
  SubOptions :: "FItemBaseData option \<Rightarrow> UEquipmentSubOptionData option list"

text \<open>
  \<open>TArray::RemoveAt(i)\<close>, and \<open>TMap::FindOrAdd(k) += v\<close> on a map kept as the list of its
  pairs in insertion order, which is the order the map is iterated in.
\<close>

definition RemoveAt :: "nat \<Rightarrow> 'a list \<Rightarrow> 'a list" where
  "RemoveAt i xs = take i xs @ drop (Suc i) xs"

fun FindOrAddPlus :: "(FName \<times> int) list \<Rightarrow> FName \<Rightarrow> int \<Rightarrow> (FName \<times> int) list" where
  "FindOrAddPlus [] k v = [(k, Int32 (0 + v))]"
| "FindOrAddPlus ((k', a) # rest) k v =
     (if k' = k then (k', Int32 (a + v)) # rest else (k', a) # FindOrAddPlus rest k v)"

section \<open>Inventory: simulating a batch of rewards\<close>

text \<open>
  The first loop of \<open>SimulateRewards\<close>, by index: a reward that is not an item or has no
  row stays in place; an item reward is removed from \<open>InRewards\<close> (the index stays,
  \<open>RemoveAt(i--)\<close> followed by \<open>++i\<close>) and goes to \<open>NonStackablePass\<close> or into
  \<open>StackableCounts\<close>.
\<close>

function ClassifyLoop ::
  "InventoryWorld \<Rightarrow> nat \<Rightarrow> FRewardHandler list \<Rightarrow> FRewardHandler list \<Rightarrow> (FName \<times> int) list
     \<Rightarrow> FRewardHandler list \<times> FRewardHandler list \<times> (FName \<times> int) list" where
  "ClassifyLoop w i InRewards NonStackablePass StackableCounts =
     (if i < length InRewards
      then (if RewardType (InRewards ! i) \<noteq> EReward_Item
            then ClassifyLoop w (Suc i) InRewards NonStackablePass StackableCounts
            else (case ItemRowByName w (TypeRowName (InRewards ! i)) of
                    None \<Rightarrow> ClassifyLoop w (Suc i) InRewards NonStackablePass StackableCounts
                  | Some Row \<Rightarrow>
                      if IsNonStackable Row
                      then ClassifyLoop w i (RemoveAt i InRewards)
                             (NonStackablePass @ [InRewards ! i]) StackableCounts
                      else ClassifyLoop w i (RemoveAt i InRewards) NonStackablePass
                             (FindOrAddPlus StackableCounts (TypeRowName (InRewards ! i))
                                (Amount (InRewards ! i)))))
      else (InRewards, NonStackablePass, StackableCounts))"
  by pat_completeness auto
termination
  by (relation "measure (\<lambda>(w, i, xs, ns, sc). length xs - i)") (auto simp: RemoveAt_def)

declare ClassifyLoop.simps [simp del]

text \<open>
  The second loop: every merged amount that is not zero becomes one item reward with the
  acquire source of the batch.
\<close>

fun RebuildStackables ::
  "(FName \<times> int) list \<Rightarrow> ERewardSource \<Rightarrow> FRewardHandler list \<Rightarrow> FRewardHandler list" where
  "RebuildStackables [] DefaultSource InRewards = InRewards"
| "RebuildStackables ((ItemRowName, MergedAmount) # rest) DefaultSource InRewards =
     RebuildStackables rest DefaultSource
       (if MergedAmount \<noteq> 0
        then InRewards @ [\<lparr>RewardType = EReward_Item, TypeRowName = ItemRowName,
                           Amount = MergedAmount, AcquireSource = DefaultSource\<rparr>]
        else InRewards)"

text \<open>
  The loop over \<open>InUpdatedItem\<close>, from the slot count \<open>SlotAmount\<close>; \<open>None\<close> in the
  list is a null pointer.
\<close>

fun UpdatedItemSlots :: "UNetItem option list \<Rightarrow> int \<Rightarrow> int" where
  "UpdatedItemSlots [] SlotAmount = SlotAmount"
| "UpdatedItemSlots (None # rest) SlotAmount = UpdatedItemSlots rest SlotAmount"
| "UpdatedItemSlots (Some It # rest) SlotAmount =
     (case ItemData It of
        None \<Rightarrow> UpdatedItemSlots rest SlotAmount
      | Some d \<Rightarrow>
          if \<not> RequiresInventorySlot d then UpdatedItemSlots rest SlotAmount
          else if IsNonStackable d
          then (if 0 < ItemAmount It
                then UpdatedItemSlots rest (Int32 (SlotAmount + ItemAmount It))
                else if ItemAmount It < 0
                then UpdatedItemSlots rest (Int32 (SlotAmount - Int32 \<bar>ItemAmount It\<bar>))
                else UpdatedItemSlots rest SlotAmount)
          else UpdatedItemSlots rest
                 (Int32 (SlotAmount + (if 0 < ItemAmount It then 1 else - 1))))"

text \<open>
  The loop over the merged rewards. \<open>SimulateRewards\<close> returns \<open>false\<close> at two places,
  which the outcome tells apart: \<open>SimulateFail\<close> where \<open>URewardManager::Simulate\<close>
  refuses a reward, \<open>InventoryFull\<close> where the slot count exceeds the capacity.
\<close>

datatype SimulateOutcome = SimulateOk | SimulateFail | InventoryFull

fun RewardSlotLoop ::
  "InventoryWorld \<Rightarrow> bool \<Rightarrow> int \<Rightarrow> FRewardHandler list \<Rightarrow> int \<Rightarrow> SimulateOutcome" where
  "RewardSlotLoop w bCheckInventory MaxCapacity [] SlotAmount = SimulateOk"
| "RewardSlotLoop w bCheckInventory MaxCapacity (Handler # rest) SlotAmount =
     (if \<not> Simulate w Handler then SimulateFail
      else if \<not> bCheckInventory then RewardSlotLoop w bCheckInventory MaxCapacity rest SlotAmount
      else if RewardType Handler \<noteq> EReward_Item \<or> AcquireSource Handler \<noteq> ERewardSource_None
      then RewardSlotLoop w bCheckInventory MaxCapacity rest SlotAmount
      else (case ItemRowByName w (TypeRowName Handler) of
              None \<Rightarrow> RewardSlotLoop w bCheckInventory MaxCapacity rest SlotAmount
            | Some Row \<Rightarrow>
                if \<not> RequiresInventorySlot Row
                then RewardSlotLoop w bCheckInventory MaxCapacity rest SlotAmount
                else (let UserAmount = GetAmount w (TypeRowName Handler);
                          SlotAmount' =
                            (if IsNonStackable Row
                             then (if 0 < Amount Handler
                                   then Int32 (SlotAmount + Amount Handler)
                                   else if Amount Handler < 0
                                   then Int32 (SlotAmount
                                          - min UserAmount (Int32 (- Amount Handler)))
                                   else SlotAmount)
                             else (if 0 < Amount Handler
                                   then (if UserAmount = 0 then Int32 (SlotAmount + 1)
                                         else SlotAmount)
                                   else if Amount Handler < 0
                                   then (if Int32 (UserAmount + Amount Handler) \<le> 0
                                         then Int32 (SlotAmount - 1)
                                         else SlotAmount)
                                   else SlotAmount))
                      in if MaxCapacity < SlotAmount' then InventoryFull
                         else RewardSlotLoop w bCheckInventory MaxCapacity rest SlotAmount')))"

text \<open>
  The first two steps of \<open>SimulateRewards\<close>: what the in-out array \<open>InRewards\<close> holds
  after them. The acquire source of the batch is that of its first reward.
\<close>

definition MergeRewards :: "InventoryWorld \<Rightarrow> FRewardHandler list \<Rightarrow> FRewardHandler list" where
  "MergeRewards w InRewards =
     (let DefaultSource = (if 0 < length InRewards then AcquireSource (InRewards ! 0)
                           else ERewardSource_None)
      in case ClassifyLoop w 0 InRewards [] [] of
           (Remaining, NonStackablePass, StackableCounts) \<Rightarrow>
             RebuildStackables StackableCounts DefaultSource Remaining @ NonStackablePass)"

definition SimulateRewards_outcome ::
  "InventoryWorld \<Rightarrow> FRewardHandler list \<Rightarrow> UNetItem option list \<Rightarrow> bool
     \<Rightarrow> SimulateOutcome \<times> FRewardHandler list" where
  "SimulateRewards_outcome w InRewards InUpdatedItem bCheckInventory =
     (let Merged = MergeRewards w InRewards;
          SlotAmount = UpdatedItemSlots InUpdatedItem (GetItemSlotCount w)
      in (RewardSlotLoop w bCheckInventory (GetMaxCapacity w) Merged SlotAmount, Merged))"

text \<open>
  \<open>SimulateRewards\<close>: the value returned and the array \<open>InRewards\<close> as it is left.
\<close>

definition SimulateRewards ::
  "InventoryWorld \<Rightarrow> FRewardHandler list \<Rightarrow> UNetItem option list \<Rightarrow> bool
     \<Rightarrow> bool \<times> FRewardHandler list" where
  "SimulateRewards w InRewards InUpdatedItem bCheckInventory =
     (case SimulateRewards_outcome w InRewards InUpdatedItem bCheckInventory of
        (outcome, Merged) \<Rightarrow> (outcome = SimulateOk, Merged))"

text \<open>
  The three kinds of reward the first loop tells apart, the counting of the stackable ones
  and the reward the second loop builds from a pair of the map.
\<close>

definition Unclassified :: "InventoryWorld \<Rightarrow> FRewardHandler \<Rightarrow> bool" where
  "Unclassified w r \<longleftrightarrow> RewardType r \<noteq> EReward_Item \<or> ItemRowByName w (TypeRowName r) = None"

definition NonStackableReward :: "InventoryWorld \<Rightarrow> FRewardHandler \<Rightarrow> bool" where
  "NonStackableReward w r \<longleftrightarrow> RewardType r = EReward_Item
     \<and> (case ItemRowByName w (TypeRowName r) of None \<Rightarrow> False | Some d \<Rightarrow> IsNonStackable d)"

definition StackableReward :: "InventoryWorld \<Rightarrow> FRewardHandler \<Rightarrow> bool" where
  "StackableReward w r \<longleftrightarrow> RewardType r = EReward_Item
     \<and> (case ItemRowByName w (TypeRowName r) of None \<Rightarrow> False | Some d \<Rightarrow> \<not> IsNonStackable d)"

fun CountAll :: "(FName \<times> int) list \<Rightarrow> FRewardHandler list \<Rightarrow> (FName \<times> int) list" where
  "CountAll sc [] = sc"
| "CountAll sc (r # rs) = CountAll (FindOrAddPlus sc (TypeRowName r) (Amount r)) rs"

definition MergedReward :: "ERewardSource \<Rightarrow> FName \<times> int \<Rightarrow> FRewardHandler" where
  "MergedReward DefaultSource p =
     \<lparr>RewardType = EReward_Item, TypeRowName = fst p, Amount = snd p,
      AcquireSource = DefaultSource\<rparr>"

section \<open>Inventory: committing amounts\<close>

text \<open>
  \<open>FMath::Clamp(X, Min, Max)\<close> of the engine: \<open>Min\<close> for a value below it, the value
  itself below \<open>Max\<close>, and \<open>Max\<close> otherwise.
\<close>

definition Clamp :: "int \<Rightarrow> int \<Rightarrow> int \<Rightarrow> int" where
  "Clamp X InMin InMax = (if X < InMin then InMin else if X < InMax then X else InMax)"

text \<open>
  The queries the functions run or add to the task, with their arguments, and the task as
  the list of the queries added.
\<close>

datatype SqlGameQuery =
  UpdateItemAmount int int
| DeleteItem int
| DeleteInventory int
| DeleteEquipment int int
| InsertItem int int int
| InsertInventory int int
| InsertItemOption int int int int

type_synonym FSqliteQueryTask = "SqlGameQuery list"

text \<open>
  \<open>OnUpdateItemAmount\<close> reads the row of the item without a null check. The net item is
  changed in place: the model returns it.
\<close>

definition OnUpdateItemAmount ::
  "InventoryWorld \<Rightarrow> UNetItem \<Rightarrow> int \<Rightarrow> FSqliteQueryTask
     \<Rightarrow> error + UNetItem \<times> FSqliteQueryTask" where
  "OnUpdateItemAmount w InNetItem InUpdateAmount Task =
     (case ItemRowByID w (ItemID InNetItem) of
        None \<Rightarrow> Inl NullDereference
      | Some Row \<Rightarrow>
          (let PreAmount = ItemAmount InNetItem;
               NetItem = InNetItem\<lparr>ItemAmount :=
                           Clamp (Int32 (PreAmount + InUpdateAmount)) 0
                             (MaxStackAmount Row)\<rparr>
           in if 0 < ItemAmount NetItem
              then Inr (NetItem, Task @ [UpdateItemAmount (ItemAmount NetItem) (ItemUID NetItem)])
              else Inr (NetItem, Task @ [DeleteItem (ItemUID NetItem)])))"

text \<open>
  \<open>BuildOptions\<close>: nothing for an item that is not an equipment. Otherwise the options
  of the item are emptied and filled again, one for every sub-option drawn: the fixed
  option of the same index when there is one, else a new option from the sub-option, which
  is read without a null check, with its query. (The source writes \<open>NetItem\<close> for the item
  in the last two lines of the loop, a name the function does not declare: it is read as
  \<open>InNetItem\<close>.) \<open>InFixedOptions\<close> is \<open>None\<close> for the null pointer and its entries
  are \<open>None\<close> for null options.
\<close>

fun BuildOptionsLoop ::
  "InventoryWorld \<Rightarrow> UNetItemOption option list option \<Rightarrow> nat
     \<Rightarrow> UEquipmentSubOptionData option list \<Rightarrow> UNetItem \<Rightarrow> FSqliteQueryTask
     \<Rightarrow> error + UNetItem \<times> FSqliteQueryTask" where
  "BuildOptionsLoop w InFixedOptions i [] InNetItem InTask = Inr (InNetItem, InTask)"
| "BuildOptionsLoop w InFixedOptions i (Option # rest) InNetItem InTask =
     (case (case InFixedOptions of
              None \<Rightarrow> None
            | Some Fixed \<Rightarrow> if i < length Fixed then Fixed ! i else None) of
        Some FixedOption \<Rightarrow>
          BuildOptionsLoop w InFixedOptions (Suc i) rest
            (InNetItem\<lparr>Options := Options InNetItem @ [FixedOption]\<rparr>) InTask
      | None \<Rightarrow>
          (case Option of
             None \<Rightarrow> Inl NullDereference
           | Some Sub \<Rightarrow>
               BuildOptionsLoop w InFixedOptions (Suc i) rest
                 (InNetItem\<lparr>Options := Options InNetItem
                      @ [\<lparr>OptionID = EffectRowID Sub, OptionValue = EffectValue Sub\<rparr>]\<rparr>)
                 (InTask @ [InsertItemOption (AccountID w) (ItemUID InNetItem)
                              (EffectRowID Sub) (EffectValue Sub)])))"

definition BuildOptions ::
  "InventoryWorld \<Rightarrow> UNetItem \<Rightarrow> FSqliteQueryTask \<Rightarrow> UNetItemOption option list option
     \<Rightarrow> error + UNetItem \<times> FSqliteQueryTask" where
  "BuildOptions w InNetItem InTask InFixedOptions =
     (if GetItemType w InNetItem \<noteq> EItem_Equip then Inr (InNetItem, InTask)
      else BuildOptionsLoop w InFixedOptions 0 (SubOptions w (ItemData InNetItem))
             (InNetItem\<lparr>Options := []\<rparr>) InTask)"

text \<open>
  \<open>AddInventoryItem\<close> reads the row of the item without a null check. For an item that
  can stack and is held it updates the amount of the held item. Otherwise
  (\<open>NewInventoryItem\<close>, the second half of the function) it makes a new net item with the
  amount as it is given, inserts it into the game database at once (the third component of
  the result lists the queries run at once), takes the row identifier of the insertion as
  the identifier of the item, adds the inventory row to the task and builds the options.
\<close>

definition NewInventoryItem ::
  "InventoryWorld \<Rightarrow> int \<Rightarrow> int \<Rightarrow> FItemBaseData \<Rightarrow> FSqliteQueryTask
     \<Rightarrow> error + UNetItem \<times> FSqliteQueryTask \<times> SqlGameQuery list" where
  "NewInventoryItem w InItemID InAddAmount Row InTask =
     (let NetItem = \<lparr>ItemID = InItemID, ItemUID = GetLastInsertRowId w,
                      ItemAmount = InAddAmount, ItemData = Some Row, Options = []\<rparr>
      in case BuildOptions w NetItem
                (InTask @ [InsertInventory (AccountID w) (ItemUID NetItem)]) None of
           Inl e \<Rightarrow> Inl e
         | Inr (Built, Task) \<Rightarrow>
             Inr (Built, Task, [InsertItem (AccountID w) InItemID InAddAmount]))"

definition AddInventoryItem ::
  "InventoryWorld \<Rightarrow> int \<Rightarrow> int \<Rightarrow> FSqliteQueryTask
     \<Rightarrow> error + UNetItem \<times> FSqliteQueryTask \<times> SqlGameQuery list" where
  "AddInventoryItem w InItemID InAddAmount InTask =
     (case ItemRowByID w InItemID of
        None \<Rightarrow> Inl NullDereference
      | Some Row \<Rightarrow>
          (let bCanStack = 1 < MaxStackAmount Row
           in case (if bCanStack then DuplicateNetItemByID w InItemID else None) of
                None \<Rightarrow> NewInventoryItem w InItemID InAddAmount Row InTask
              | Some Held \<Rightarrow>
                  if bCanStack
                  then (case OnUpdateItemAmount w Held InAddAmount InTask of
                          Inl e \<Rightarrow> Inl e
                        | Inr (NetItem, Task) \<Rightarrow> Inr (NetItem, Task, []))
                  else NewInventoryItem w InItemID InAddAmount Row InTask))"

text \<open>
  \<open>RemoveInventoryItem\<close>: the guard, the update by the negated amount, and the deletion
  of the inventory row, and of the equipment row of an equipped item, when nothing is
  left.
\<close>

definition RemoveInventoryItem ::
  "InventoryWorld \<Rightarrow> UNetItem option \<Rightarrow> int \<Rightarrow> FSqliteQueryTask
     \<Rightarrow> error + bool \<times> UNetItem option \<times> FSqliteQueryTask" where
  "RemoveInventoryItem w InNetItem InRemoveAmount InTask =
     (case InNetItem of
        None \<Rightarrow> Inr (False, None, InTask)
      | Some It \<Rightarrow>
          if InRemoveAmount < 0 \<or> Int32 (ItemAmount It - InRemoveAmount) < 0
          then Inr (False, Some It, InTask)
          else (case OnUpdateItemAmount w It (Int32 (InRemoveAmount * - 1)) InTask of
                  Inl e \<Rightarrow> Inl e
                | Inr (NetItem, Task) \<Rightarrow>
                    if ItemAmount NetItem \<le> 0
                    then Inr (True, Some NetItem,
                           (Task @ [DeleteInventory (ItemUID NetItem)])
                           @ (if GetEquipmentBy w (ItemID NetItem)
                              then [DeleteEquipment (AccountID w) (ItemUID NetItem)]
                              else []))
                    else Inr (True, Some NetItem, Task)))"

text \<open>
  An example world: a sword that does not stack, potions and herbs that do, an inventory
  of five slots that is full, five potions held, the sword equipped and of two
  sub-options.
\<close>

definition SwordRow :: FItemBaseData where
  "SwordRow = \<lparr>MaxStackAmount = 1, IsNonStackable = True, RequiresInventorySlot = True\<rparr>"

definition PotionRow :: FItemBaseData where
  "PotionRow = \<lparr>MaxStackAmount = 99, IsNonStackable = False, RequiresInventorySlot = True\<rparr>"


definition HeldSwords :: UNetItem where
  "HeldSwords =
     \<lparr>ItemID = 1, ItemUID = 10, ItemAmount = 3, ItemData = Some SwordRow, Options = []\<rparr>"

definition HeldPotions :: UNetItem where
  "HeldPotions =
     \<lparr>ItemID = 2, ItemUID = 20, ItemAmount = 5, ItemData = Some PotionRow, Options = []\<rparr>"

definition FullWorld :: InventoryWorld where
  "FullWorld =
     \<lparr>ItemRowByName = (\<lambda>n. if n = ''Sword'' then Some SwordRow
                            else if n = ''Potion'' \<or> n = ''Herb'' then Some PotionRow
                            else None),
      ItemRowByID = (\<lambda>i. if i = 1 then Some SwordRow
                          else if i = 2 \<or> i = 3 then Some PotionRow else None),
      GetItemSlotCount = 5, GetMaxCapacity = 5,
      GetAmount = (\<lambda>n. if n = ''Potion'' then 5 else 0),
      Simulate = (\<lambda>r. True),
      GetEquipmentBy = (\<lambda>i. i = 1),
      AccountID = 42,
      DuplicateNetItemByID = (\<lambda>i. if i = 2 then Some HeldPotions else None),
      GetLastInsertRowId = 77,
      GetItemType = (\<lambda>It. if ItemID It = 1 then EItem_Equip else EItem_Other 0),
      SubOptions = (\<lambda>Row. [Some \<lparr>EffectRowID = 7, EffectValue = 15\<rparr>,
                            Some \<lparr>EffectRowID = 9, EffectValue = 4\<rparr>])\<rparr>"

section \<open>Properties of the weighted roll\<close>

lemma weights_sum_nonneg:
  "\<forall>e\<in>set es. 0 \<le> Weight e \<Longrightarrow> 0 \<le> sum_list (map Weight es)"
  by (induction es) auto

lemma weights_sum_zero:
  "\<forall>e\<in>set es. 0 \<le> Weight e \<Longrightarrow> sum_list (map Weight es) = 0 \<Longrightarrow>
   filter (\<lambda>e. Weight e \<noteq> 0) es = []"
proof (induction es)
  case Nil
  then show ?case by simp
next
  case (Cons e es)
  have "0 \<le> sum_list (map Weight es)" "0 \<le> Weight e"
    using Cons.prems(1) weights_sum_nonneg [of es] by auto
  with Cons.prems(2) have "Weight e = 0" "sum_list (map Weight es) = 0" by auto
  with Cons show ?case by simp
qed

lemma weights_filter_empty:
  "filter (\<lambda>e. Weight e \<noteq> 0) es = [] \<Longrightarrow> sum_list (map Weight es) = 0"
  by (induction es) (auto split: if_splits)

lemma last_filter_keeps:
  "xs \<noteq> [] \<Longrightarrow> P (last xs) \<Longrightarrow> last (filter P xs) = last xs"
  by (induction xs) (auto simp: filter_empty_conv)

lemma RollWalk_total_weight:
  "\<forall>e\<in>set es. 0 \<le> Weight e \<Longrightarrow> 0 < sum_list (map Weight es) \<Longrightarrow>
   RollWalk (map Some es) cw (cw + sum_list (map Weight es))
     = Inr (Some (last (filter (\<lambda>e. Weight e \<noteq> 0) es)))"
proof (induction es arbitrary: cw)
  case Nil
  then show ?case by simp
next
  case (Cons e es)
  have nonneg: "0 \<le> sum_list (map Weight es)"
    using Cons.prems(1) weights_sum_nonneg [of es] by simp
  show ?case
  proof (cases "sum_list (map Weight es) = 0")
    case True
    have "filter (\<lambda>e. Weight e \<noteq> 0) es = []"
      using True Cons.prems(1) weights_sum_zero [of es] by simp
    with True Cons.prems(2) show ?thesis by simp
  next
    case False
    with nonneg have pos: "0 < sum_list (map Weight es)" by simp
    have ne: "filter (\<lambda>e. Weight e \<noteq> 0) es \<noteq> []"
      using False weights_filter_empty [of es] by auto
    have "RollWalk (map Some es) (cw + Weight e) ((cw + Weight e) + sum_list (map Weight es))
            = Inr (Some (last (filter (\<lambda>e. Weight e \<noteq> 0) es)))"
      using Cons.IH [of "cw + Weight e"] Cons.prems(1) pos by simp
    with pos ne show ?thesis by (simp add: add.assoc)
  qed
qed

lemma RollWalk_one:
  "\<forall>e\<in>set es. 0 \<le> Weight e \<Longrightarrow> filter (\<lambda>e. Weight e \<noteq> 0) es \<noteq> [] \<Longrightarrow>
   RollWalk (map Some es) 0 1 = Inr (Some (hd (filter (\<lambda>e. Weight e \<noteq> 0) es)))"
proof (induction es)
  case Nil
  then show ?case by simp
next
  case (Cons e es)
  show ?case
  proof (cases "Weight e = 0")
    case True
    with Cons show ?thesis by simp
  next
    case False
    with Cons.prems(1) have "1 \<le> Weight e" by simp
    with False show ?thesis by simp
  qed
qed

text \<open>
  Claim C4, as the code has it. For a pool without null entries whose weights are not
  negative and sum up to \<open>TotalGachaWeight = W > 0\<close>: the roll with the drawn number
  \<open>W\<close> selects the last entry of nonzero weight, which is the last entry of the pool
  whenever that entry's weight is not zero (so whenever all weights are positive); the
  roll with the drawn number 1 selects the first entry of nonzero weight in table order.
  In the pool A (70), B (25), C (5) the drawn number 80 selects B, 100 selects C and 1
  selects A.
\<close>

theorem weighted_roll_extremes:
  assumes entries: "GachaRandoms rd = map Some es"
    and nonneg: "\<forall>e\<in>set es. 0 \<le> Weight e"
    and total: "TotalGachaWeight rd = sum_list (map Weight es)"
    and pos: "0 < TotalGachaWeight rd"
  shows "(let nz = filter (\<lambda>e. Weight e \<noteq> 0) es
          in RollWalk (GachaRandoms rd) 0 (TotalGachaWeight rd) = Inr (Some (last nz))
           \<and> RollRandomReward_drawn rd (TotalGachaWeight rd) out
               = Inr (Reward (last nz), PickupGroup (last nz))
           \<and> RollWalk (GachaRandoms rd) 0 1 = Inr (Some (hd nz))
           \<and> RollRandomReward_drawn rd 1 out = Inr (Reward (hd nz), PickupGroup (hd nz))
           \<and> (Weight (last es) \<noteq> 0 \<longrightarrow> last nz = last es))
         \<and> RollRandomReward_drawn ExamplePool 80 out = Inr (Reward RewardB, PickupGroup RewardB)
         \<and> RollRandomReward_drawn ExamplePool 100 out = Inr (Reward RewardC, PickupGroup RewardC)
         \<and> RollRandomReward_drawn ExamplePool 1 out = Inr (Reward RewardA, PickupGroup RewardA)"
proof -
  let ?nz = "filter (\<lambda>e. Weight e \<noteq> 0) es"
  have sum_pos: "0 < sum_list (map Weight es)"
    using total pos by simp
  have ne: "?nz \<noteq> []"
    using sum_pos weights_filter_empty [of es] by auto
  have es_ne: "es \<noteq> []"
    using ne by auto
  have w: "RollWalk (GachaRandoms rd) 0 (TotalGachaWeight rd) = Inr (Some (last ?nz))"
    using RollWalk_total_weight [OF nonneg sum_pos, of 0] entries total by simp
  have o: "RollWalk (GachaRandoms rd) 0 1 = Inr (Some (hd ?nz))"
    using RollWalk_one [OF nonneg ne] entries by simp
  have l: "Weight (last es) \<noteq> 0 \<longrightarrow> last ?nz = last es"
    using es_ne last_filter_keeps [of es "\<lambda>e. Weight e \<noteq> 0"] by simp
  have ex: "RollRandomReward_drawn ExamplePool 80 out = Inr (Reward RewardB, PickupGroup RewardB)"
    "RollRandomReward_drawn ExamplePool 100 out = Inr (Reward RewardC, PickupGroup RewardC)"
    "RollRandomReward_drawn ExamplePool 1 out = Inr (Reward RewardA, PickupGroup RewardA)"
    by (simp_all add: RollRandomReward_drawn_def ExamplePool_def RewardA_def RewardB_def
        RewardC_def)
  show ?thesis
    using w o l ex by (simp add: RollRandomReward_drawn_def Let_def)
qed

text \<open>
  The theorem at the example pool: its weights are positive and sum up to 100.
\<close>

theorem weighted_roll_extremes_witness:
  "RollRandomReward_drawn ExamplePool 100 0 = Inr (Reward RewardC, PickupGroup RewardC)
   \<and> RollRandomReward_drawn ExamplePool 1 0 = Inr (Reward RewardA, PickupGroup RewardA)
   \<and> RollWalk (GachaRandoms ExamplePool) 0 100 = Inr (Some RewardC)
   \<and> TotalGachaWeight ExamplePool = Weight RewardA + Weight RewardB + Weight RewardC"
  using weighted_roll_extremes [of ExamplePool "[RewardA, RewardB, RewardC]" 0]
  by (simp add: ExamplePool_def RewardA_def RewardB_def RewardC_def)

text \<open>
  Claim C4 as stated fails where the last entry has weight zero: in the pool C (5),
  A (0) of total weight 5 the drawn number 5 selects C, the first entry, and not the last
  entry of the pool.
\<close>

theorem weighted_roll_last_entry_counterexample:
  "TotalGachaWeight ZeroTailPool = 5
   \<and> GachaRandoms ZeroTailPool = [Some RewardC, Some (RewardA\<lparr>Weight := 0\<rparr>)]
   \<and> Weight RewardC + Weight (RewardA\<lparr>Weight := 0\<rparr>) = 5
   \<and> RollWalk (GachaRandoms ZeroTailPool) 0 5 = Inr (Some RewardC)
   \<and> RollRandomReward_drawn ZeroTailPool 5 0 = Inr (Reward RewardC, PickupGroup RewardC)
   \<and> RollRandomReward_drawn ZeroTailPool 5 0
        \<noteq> Inr (Reward (RewardA\<lparr>Weight := 0\<rparr>), PickupGroup (RewardA\<lparr>Weight := 0\<rparr>))"
  by (simp add: ZeroTailPool_def RollRandomReward_drawn_def RewardA_def RewardC_def
      MakeRewardHandler_def)

section \<open>Properties of the pity counters\<close>

lemma RandRange_bounds:
  assumes le: "lo \<le> hi"
  shows "lo \<le> fst (RandRange lo hi g) \<and> fst (RandRange lo hi g) \<le> hi"
proof -
  define m where "m = int (g 0) mod (hi - lo + 1)"
  have pos: "0 < hi - lo + 1" using le by simp
  have m0: "0 \<le> m"
    unfolding m_def using pos by (rule pos_mod_sign)
  have m1: "m < hi - lo + 1"
    unfolding m_def using pos by (rule pos_mod_bound)
  have "fst (RandRange lo hi g) = lo + m"
    using pos by (simp add: RandRange_def Let_def m_def)
  with m0 m1 show ?thesis by simp
qed

lemma CollectPickup_set:
  "set (CollectPickup xs thr) = {d. Some d \<in> set xs \<and> thr \<le> PickupGroup d}"
  by (induction xs thr rule: CollectPickup.induct) auto

lemma GrantsTier_iff:
  "GrantsTier rd thr r \<longleftrightarrow> (\<exists>d. Some d \<in> set (GachaRandoms rd) \<and> thr \<le> PickupGroup d \<and> Reward d = r)"
  by (auto simp: GrantsTier_def list_ex_iff split: option.splits)

lemma GrantsTier_mono:
  "GrantsTier rd thr r \<Longrightarrow> thr' \<le> thr \<Longrightarrow> GrantsTier rd thr' r"
  by (auto simp: GrantsTier_iff)

lemma GrantsTier_CollectPickup:
  "GrantsTier rd thr r \<Longrightarrow> CollectPickup (GachaRandoms rd) thr \<noteq> []"
proof -
  assume "GrantsTier rd thr r"
  then obtain d where "Some d \<in> set (GachaRandoms rd)" "thr \<le> PickupGroup d"
    by (auto simp: GrantsTier_iff)
  then have "d \<in> set (CollectPickup (GachaRandoms rd) thr)"
    by (simp add: CollectPickup_set)
  then show ?thesis by auto
qed

lemma AddPickupReward_empty:
  "CollectPickup (GachaRandoms rd) thr = [] \<Longrightarrow>
   AddPickupReward (Some rd) thr g = (MakeRewardHandler EReward_None NAME_None 0, g)"
  by (simp add: AddPickupReward_def)

lemma AddPickupReward_grants:
  assumes ne: "CollectPickup (GachaRandoms rd) thr \<noteq> []"
  shows "GrantsTier rd thr (fst (AddPickupReward (Some rd) thr g))"
proof -
  let ?c = "CollectPickup (GachaRandoms rd) thr"
  let ?i = "fst (RandRange 0 (int (length ?c) - 1) g)"
  have len: "0 < length ?c" using ne by simp
  then have "0 \<le> ?i \<and> ?i \<le> int (length ?c) - 1"
    using RandRange_bounds [of 0 "int (length ?c) - 1" g] by simp
  then have "nat ?i < length ?c" by auto
  then have "?c ! nat ?i \<in> set ?c" by simp
  then have "Some (?c ! nat ?i) \<in> set (GachaRandoms rd) \<and> thr \<le> PickupGroup (?c ! nat ?i)"
    by (simp add: CollectPickup_set)
  then have "GrantsTier rd thr (Reward (?c ! nat ?i))"
    by (auto simp: GrantsTier_iff)
  moreover have "fst (AddPickupReward (Some rd) thr g) = Reward (?c ! nat ?i)"
    using ne by (simp add: AddPickupReward_def Let_def split: prod.splits)
  ultimately show ?thesis by simp
qed

lemma RollWalk_selected:
  "RollWalk xs cw r = Inr (Some e) \<Longrightarrow> Some e \<in> set xs"
  by (induction xs cw r rule: RollWalk.induct) (auto split: if_splits)

lemma RollWalk_no_null:
  "None \<notin> set xs \<Longrightarrow> \<exists>x. RollWalk xs cw r = Inr x"
  by (induction xs cw r rule: RollWalk.induct) auto

lemma RollRandomReward_result:
  assumes "RollRandomReward rd 0 g = Inr (r, pg, g')"
  shows "(\<exists>d. Some d \<in> set (GachaRandoms rd) \<and> r = Reward d \<and> pg = PickupGroup d)
         \<or> (r = MakeRewardHandler EReward_None NAME_None 0 \<and> pg = 0)"
  using assms
  by (auto simp: RollRandomReward_def RollRandomReward_drawn_def
      split: prod.splits sum.splits option.splits dest: RollWalk_selected)

lemma RollRandomReward_grants:
  assumes "RollRandomReward rd 0 g = Inr (r, pg, g')" and "0 < thr" and "thr \<le> pg"
  shows "GrantsTier rd thr r"
  using RollRandomReward_result [OF assms(1)] assms(2,3)
  by (auto simp: GrantsTier_iff)

lemma RollRandomReward_no_null:
  assumes "None \<notin> set (GachaRandoms rd)"
  shows "\<exists>x. RollRandomReward rd out g = Inr x"
proof -
  obtain n g' where rr: "RandRange 1 (TotalGachaWeight rd) g = (n, g')"
    by (cases "RandRange 1 (TotalGachaWeight rd) g")
  obtain x where "RollWalk (GachaRandoms rd) 0 n = Inr x"
    using RollWalk_no_null [OF assms, of 0 n] by auto
  then show ?thesis
    using rr by (auto simp: RollRandomReward_def RollRandomReward_drawn_def split: option.splits)
qed

text \<open>One draw appends exactly one reward and counts the draw.\<close>

lemma GachaDraw_appends:
  "GachaDraw c rd st = Inr st' \<Longrightarrow>
   \<exists>r. RewardHandlers st' = RewardHandlers st @ [r]"
  by (auto simp: GachaDraw_def Let_def split: if_splits prod.splits sum.splits)

lemma GachaDraw_no_null:
  "None \<notin> set (GachaRandoms rd) \<Longrightarrow> \<exists>st'. GachaDraw c rd st = Inr st'"
  using RollRandomReward_no_null [of rd 0 "Random st"]
  by (auto simp: GachaDraw_def Let_def split: if_splits prod.splits sum.splits)

lemma GachaDraw_special_nonneg:
  "GachaDraw c rd st = Inr st' \<Longrightarrow> 0 \<le> SpecialPickupCounter st \<Longrightarrow>
   0 \<le> SpecialPickupCounter st'"
  by (auto simp: GachaDraw_def Let_def split: if_splits prod.splits sum.splits)

lemma GachaDraw_normal_nonneg:
  "GachaDraw c rd st = Inr st' \<Longrightarrow> 0 \<le> NormalPickupCounter st \<Longrightarrow>
   0 \<le> NormalPickupCounter st'"
  by (auto simp: GachaDraw_def Let_def split: if_splits prod.splits sum.splits)

text \<open>
  A draw that grants no reward of the special tier leaves the special counter one higher,
  and below the try count.
\<close>

lemma GachaDraw_special_quiet:
  assumes sp: "0 < SpecialPickupGroup c"
    and ne: "CollectPickup (GachaRandoms rd) (SpecialPickupGroup c) \<noteq> []"
    and draw: "GachaDraw c rd st = Inr st'"
    and app: "RewardHandlers st' = RewardHandlers st @ [r]"
    and quiet: "\<not> GrantsTier rd (SpecialPickupGroup c) r"
  shows "SpecialPickupCounter st' = SpecialPickupCounter st + 1
         \<and> SpecialPickupCounter st + 1 < SpecialTryCount c"
proof (cases "SpecialTryCount c \<le> SpecialPickupCounter st + 1")
  case True
  then have "r = fst (AddPickupReward (Some rd) (SpecialPickupGroup c) (Random st))"
    using sp draw app by (auto simp: GachaDraw_def Let_def split: prod.splits)
  with AddPickupReward_grants [OF ne] quiet show ?thesis by simp
next
  case False
  show ?thesis
  proof (cases "0 < NormalPickupGroup c \<and> 10 \<le> NormalPickupCounter st + 1")
    case True
    with False draw show ?thesis
      by (auto simp: GachaDraw_def Let_def split: prod.splits)
  next
    case nf: False
    obtain r' pg g' where roll: "RollRandomReward rd 0 (Random st) = Inr (r', pg, g')"
      using False nf draw
      by (auto simp: GachaDraw_def Let_def split: if_splits prod.splits sum.splits)
    have r: "r' = r"
      using False nf draw app roll by (auto simp: GachaDraw_def Let_def)
    have "\<not> SpecialPickupGroup c \<le> pg"
      using RollRandomReward_grants [OF roll sp] quiet r by auto
    then show ?thesis
      using False nf draw roll by (auto simp: GachaDraw_def Let_def)
  qed
qed

text \<open>
  The same for the normal tier, when the special tier is enabled, not below the normal
  one, and the pool has an entry of the special tier.
\<close>

lemma GachaDraw_normal_quiet:
  assumes np: "0 < NormalPickupGroup c"
    and ns: "NormalPickupGroup c \<le> SpecialPickupGroup c"
    and ne: "CollectPickup (GachaRandoms rd) (SpecialPickupGroup c) \<noteq> []"
    and draw: "GachaDraw c rd st = Inr st'"
    and app: "RewardHandlers st' = RewardHandlers st @ [r]"
    and quiet: "\<not> GrantsTier rd (NormalPickupGroup c) r"
  shows "NormalPickupCounter st' = NormalPickupCounter st + 1
         \<and> NormalPickupCounter st + 1 < 10"
proof -
  have sp: "0 < SpecialPickupGroup c" using np ns by simp
  have nen: "CollectPickup (GachaRandoms rd) (NormalPickupGroup c) \<noteq> []"
  proof -
    obtain d where "d \<in> set (CollectPickup (GachaRandoms rd) (SpecialPickupGroup c))"
      using ne by (cases "CollectPickup (GachaRandoms rd) (SpecialPickupGroup c)") auto
    then have "d \<in> set (CollectPickup (GachaRandoms rd) (NormalPickupGroup c))"
      using ns by (simp add: CollectPickup_set)
    then show ?thesis by auto
  qed
  show ?thesis
  proof (cases "SpecialTryCount c \<le> SpecialPickupCounter st + 1")
    case True
    then have "r = fst (AddPickupReward (Some rd) (SpecialPickupGroup c) (Random st))"
      using sp draw app by (auto simp: GachaDraw_def Let_def split: prod.splits)
    with GrantsTier_mono [OF AddPickupReward_grants [OF ne] ns] quiet show ?thesis by simp
  next
    case False
    show ?thesis
    proof (cases "10 \<le> NormalPickupCounter st + 1")
      case True
      then have "r = fst (AddPickupReward (Some rd) (NormalPickupGroup c) (Random st))"
        using False np draw app by (auto simp: GachaDraw_def Let_def split: prod.splits)
      with AddPickupReward_grants [OF nen] quiet show ?thesis by simp
    next
      case nf: False
      obtain r' pg g' where roll: "RollRandomReward rd 0 (Random st) = Inr (r', pg, g')"
        using False nf draw
        by (auto simp: GachaDraw_def Let_def split: if_splits prod.splits sum.splits)
      have r: "r' = r"
        using False nf draw app roll by (auto simp: GachaDraw_def Let_def)
      have "\<not> NormalPickupGroup c \<le> pg"
        using RollRandomReward_grants [OF roll np] quiet r by auto
      then show ?thesis
        using False nf ns draw roll by (auto simp: GachaDraw_def Let_def)
    qed
  qed
qed

subsection \<open>Runs of the draw loop\<close>

lemma GachaLoop_add:
  "GachaLoop c rd (a + b) st =
     (case GachaLoop c rd a st of Inl e \<Rightarrow> Inl e | Inr st1 \<Rightarrow> GachaLoop c rd b st1)"
  by (induction a arbitrary: st) (auto split: sum.splits)

lemma GachaLoop_outs:
  "GachaLoop c rd k st = Inr st' \<Longrightarrow>
   \<exists>outs. length outs = k \<and> RewardHandlers st' = RewardHandlers st @ outs"
proof (induction k arbitrary: st)
  case 0
  then show ?case by simp
next
  case (Suc k)
  then obtain st1 where d: "GachaDraw c rd st = Inr st1" and l: "GachaLoop c rd k st1 = Inr st'"
    by (auto split: sum.splits)
  obtain r where r: "RewardHandlers st1 = RewardHandlers st @ [r]"
    using GachaDraw_appends [OF d] by auto
  obtain outs where "length outs = k" "RewardHandlers st' = RewardHandlers st1 @ outs"
    using Suc.IH [OF l] by auto
  with r have "length (r # outs) = Suc k \<and> RewardHandlers st' = RewardHandlers st @ (r # outs)"
    by simp
  then show ?case by blast
qed

lemma GachaLoop_no_null:
  "None \<notin> set (GachaRandoms rd) \<Longrightarrow> \<exists>st'. GachaLoop c rd k st = Inr st'"
proof (induction k arbitrary: st)
  case 0
  then show ?case by simp
next
  case (Suc k)
  obtain st1 where "GachaDraw c rd st = Inr st1"
    using GachaDraw_no_null [OF Suc.prems] by blast
  with Suc.IH [OF Suc.prems, of st1] show ?case by simp
qed

lemma GachaLoop_special_nonneg:
  "GachaLoop c rd k st = Inr st' \<Longrightarrow> 0 \<le> SpecialPickupCounter st \<Longrightarrow>
   0 \<le> SpecialPickupCounter st'"
  by (induction k arbitrary: st) (auto split: sum.splits dest: GachaDraw_special_nonneg)

lemma GachaLoop_normal_nonneg:
  "GachaLoop c rd k st = Inr st' \<Longrightarrow> 0 \<le> NormalPickupCounter st \<Longrightarrow>
   0 \<le> NormalPickupCounter st'"
  by (induction k arbitrary: st) (auto split: sum.splits dest: GachaDraw_normal_nonneg)

text \<open>
  A request stores counters that are not negative when the stored counters it starts from
  are not negative: the counters a run of draws starts from are never negative.
\<close>

lemma OnPostGive_Gacha_counters_nonneg:
  assumes req: "OnPostGive_Gacha table campaigns InReward w = Inr w'"
    and saved: "\<And>k n s. GachaCounterSave w k = Some (n, s) \<Longrightarrow> 0 \<le> n \<and> 0 \<le> s"
  shows "GachaCounterSave w' k = Some (n, s) \<Longrightarrow> 0 \<le> n \<and> 0 \<le> s"
proof -
  assume k: "GachaCounterSave w' k = Some (n, s)"
  obtain n0 s0 where l: "GetGachaCounter (GachaCounterSave w) (TypeRowName InReward) = (n0, s0)"
    by (cases "GetGachaCounter (GachaCounterSave w) (TypeRowName InReward)")
  have l0: "0 \<le> n0 \<and> 0 \<le> s0"
    using l saved [of "TypeRowName InReward" n0 s0]
    by (auto simp: GetGachaCounter_def split: option.splits)
  show ?thesis
  proof (cases "GachaCounterSave w' = GachaCounterSave w")
    case True
    with k saved show ?thesis by simp
  next
    case False
    then obtain rd c st where
      run: "GachaLoop c rd (nat (Amount InReward))
              ((Members w)\<lparr>NormalPickupCounter := n0, SpecialPickupCounter := s0,
                            RewardHandlers := []\<rparr>) = Inr st"
      and sv: "GachaCounterSave w' = (GachaCounterSave w)
                 (TypeRowName InReward \<mapsto> (NormalPickupCounter st, SpecialPickupCounter st))"
      using req l
      by (auto simp: OnPostGive_Gacha_def Let_def split: option.splits if_splits sum.splits)
    have "0 \<le> NormalPickupCounter st" "0 \<le> SpecialPickupCounter st"
      using GachaLoop_normal_nonneg [OF run] GachaLoop_special_nonneg [OF run] l0 by simp_all
    with k sv saved [of k n s] show ?thesis
      by (auto split: if_splits)
  qed
qed

lemma GachaLoop_special_quiet:
  assumes sp: "0 < SpecialPickupGroup c"
    and ne: "CollectPickup (GachaRandoms rd) (SpecialPickupGroup c) \<noteq> []"
  shows "GachaLoop c rd k st = Inr st' \<Longrightarrow>
         RewardHandlers st' = RewardHandlers st @ outs \<Longrightarrow>
         \<forall>r\<in>set outs. \<not> GrantsTier rd (SpecialPickupGroup c) r \<Longrightarrow>
         SpecialPickupCounter st' = SpecialPickupCounter st + int k
         \<and> (0 < k \<longrightarrow> SpecialPickupCounter st' < SpecialTryCount c)"
proof (induction k arbitrary: st outs)
  case 0
  then show ?case by simp
next
  case (Suc k)
  obtain st1 where d: "GachaDraw c rd st = Inr st1" and l: "GachaLoop c rd k st1 = Inr st'"
    using Suc.prems(1) by (auto split: sum.splits)
  obtain r where r: "RewardHandlers st1 = RewardHandlers st @ [r]"
    using GachaDraw_appends [OF d] by auto
  obtain outs' where o: "length outs' = k" "RewardHandlers st' = RewardHandlers st1 @ outs'"
    using GachaLoop_outs [OF l] by auto
  have outs: "outs = r # outs'"
    using Suc.prems(2) r o by simp
  have q: "\<not> GrantsTier rd (SpecialPickupGroup c) r"
    using Suc.prems(3) outs by simp
  have step: "SpecialPickupCounter st1 = SpecialPickupCounter st + 1
              \<and> SpecialPickupCounter st + 1 < SpecialTryCount c"
    using GachaDraw_special_quiet [OF sp ne d r q] .
  have q': "\<forall>r\<in>set outs'. \<not> GrantsTier rd (SpecialPickupGroup c) r"
    using Suc.prems(3) outs by simp
  have rest: "SpecialPickupCounter st' = SpecialPickupCounter st1 + int k
              \<and> (0 < k \<longrightarrow> SpecialPickupCounter st' < SpecialTryCount c)"
    using Suc.IH [OF l o(2) q'] .
  show ?case
  proof (cases k)
    case 0
    with step rest show ?thesis by simp
  next
    case (Suc _)
    with step rest show ?thesis by simp
  qed
qed

lemma GachaLoop_normal_quiet:
  assumes np: "0 < NormalPickupGroup c"
    and ns: "NormalPickupGroup c \<le> SpecialPickupGroup c"
    and ne: "CollectPickup (GachaRandoms rd) (SpecialPickupGroup c) \<noteq> []"
  shows "GachaLoop c rd k st = Inr st' \<Longrightarrow>
         RewardHandlers st' = RewardHandlers st @ outs \<Longrightarrow>
         \<forall>r\<in>set outs. \<not> GrantsTier rd (NormalPickupGroup c) r \<Longrightarrow>
         NormalPickupCounter st' = NormalPickupCounter st + int k
         \<and> (0 < k \<longrightarrow> NormalPickupCounter st' < 10)"
proof (induction k arbitrary: st outs)
  case 0
  then show ?case by simp
next
  case (Suc k)
  obtain st1 where d: "GachaDraw c rd st = Inr st1" and l: "GachaLoop c rd k st1 = Inr st'"
    using Suc.prems(1) by (auto split: sum.splits)
  obtain r where r: "RewardHandlers st1 = RewardHandlers st @ [r]"
    using GachaDraw_appends [OF d] by auto
  obtain outs' where o: "length outs' = k" "RewardHandlers st' = RewardHandlers st1 @ outs'"
    using GachaLoop_outs [OF l] by auto
  have outs: "outs = r # outs'"
    using Suc.prems(2) r o by simp
  have q: "\<not> GrantsTier rd (NormalPickupGroup c) r"
    using Suc.prems(3) outs by simp
  have step: "NormalPickupCounter st1 = NormalPickupCounter st + 1
              \<and> NormalPickupCounter st + 1 < 10"
    using GachaDraw_normal_quiet [OF np ns ne d r q] .
  have q': "\<forall>r\<in>set outs'. \<not> GrantsTier rd (NormalPickupGroup c) r"
    using Suc.prems(3) outs by simp
  have rest: "NormalPickupCounter st' = NormalPickupCounter st1 + int k
              \<and> (0 < k \<longrightarrow> NormalPickupCounter st' < 10)"
    using Suc.IH [OF l o(2) q'] .
  show ?case
  proof (cases k)
    case 0
    with step rest show ?thesis by simp
  next
    case (Suc _)
    with step rest show ?thesis by simp
  qed
qed

text \<open>
  A run of \<open>k\<close> draws, cut after \<open>a\<close> draws and again \<open>b\<close> draws later: the
  rewards of the draws \<open>a, \<dots>, a + b - 1\<close> are what the middle part appends.
\<close>

lemma GachaLoop_cut:
  assumes run: "GachaLoop c rd k st = Inr st'"
    and start: "RewardHandlers st = []"
    and le: "a + b \<le> k"
  shows "\<exists>sa sb outs. GachaLoop c rd a st = Inr sa \<and> GachaLoop c rd b sa = Inr sb
           \<and> length outs = b \<and> RewardHandlers sb = RewardHandlers sa @ outs
           \<and> (\<forall>m<b. outs ! m = RewardHandlers st' ! (a + m))"
proof -
  obtain e where k: "k = a + (b + e)"
    using le by (metis add.assoc le_Suc_ex)
  obtain sa where sa: "GachaLoop c rd a st = Inr sa"
    and rest: "GachaLoop c rd (b + e) sa = Inr st'"
    using run unfolding k GachaLoop_add [of c rd a "b + e" st] by (auto split: sum.splits)
  obtain sb where sb: "GachaLoop c rd b sa = Inr sb" and tail: "GachaLoop c rd e sb = Inr st'"
    using rest unfolding GachaLoop_add [of c rd b e sa] by (auto split: sum.splits)
  obtain o1 where o1: "length o1 = a" "RewardHandlers sa = RewardHandlers st @ o1"
    using GachaLoop_outs [OF sa] by auto
  obtain o2 where o2: "length o2 = b" "RewardHandlers sb = RewardHandlers sa @ o2"
    using GachaLoop_outs [OF sb] by auto
  obtain o3 where o3: "length o3 = e" "RewardHandlers st' = RewardHandlers sb @ o3"
    using GachaLoop_outs [OF tail] by auto
  have all: "RewardHandlers st' = o1 @ o2 @ o3"
    using o1 o2 o3 start by simp
  have "\<forall>m<b. o2 ! m = RewardHandlers st' ! (a + m)"
    using o1(1) o2(1) by (simp add: all nth_append)
  with sa sb o2 show ?thesis by blast
qed

lemma HasTier_CollectPickup:
  "HasTier rd thr \<longleftrightarrow> CollectPickup (GachaRandoms rd) thr \<noteq> []"
proof -
  have "CollectPickup (GachaRandoms rd) thr \<noteq> [] \<longleftrightarrow>
        set (CollectPickup (GachaRandoms rd) thr) \<noteq> {}"
    by simp
  also have "\<dots> \<longleftrightarrow> (\<exists>d. Some d \<in> set (GachaRandoms rd) \<and> thr \<le> PickupGroup d)"
    unfolding CollectPickup_set by auto
  also have "\<dots> \<longleftrightarrow> HasTier rd thr"
    by (auto simp: HasTier_def list_ex_iff split: option.splits)
  finally show ?thesis by simp
qed

lemmas example_defs =
  ExamplePool_def RewardA_def RewardB_def RewardC_def MakeRewardHandler_def NAME_None_def
  InitialGachaState_def GachaDraw_def AddPickupReward_def RollRandomReward_def
  RollRandomReward_drawn_def RandRange_def Let_def

text \<open>
  A draw whose pity branch is taken over a pool without an entry of the tier: the branch
  records the sentinel \<open>FRewardHandler(EReward::None, NAME_None, 0)\<close> that
  \<open>AddPickupReward\<close> returns and resets the counters (both on the special branch, the
  normal one on the normal branch); the weighted roll is not made and no random number is
  drawn.
\<close>

lemma GachaDraw_empty_subset:
  "(0 < SpecialPickupGroup c \<and> SpecialTryCount c \<le> SpecialPickupCounter st + 1
      \<and> \<not> HasTier rd (SpecialPickupGroup c)
     \<longrightarrow> GachaDraw c rd st =
          Inr \<lparr>TotalPickupCount = TotalPickupCount st + 1, NormalPickupCounter = 0,
               SpecialPickupCounter = 0,
               RewardHandlers = RewardHandlers st @ [MakeRewardHandler EReward_None NAME_None 0],
               Random = Random st\<rparr>)
   \<and> (\<not> (0 < SpecialPickupGroup c \<and> SpecialTryCount c \<le> SpecialPickupCounter st + 1)
      \<and> 0 < NormalPickupGroup c \<and> 10 \<le> NormalPickupCounter st + 1
      \<and> \<not> HasTier rd (NormalPickupGroup c)
     \<longrightarrow> GachaDraw c rd st =
          Inr \<lparr>TotalPickupCount = TotalPickupCount st + 1, NormalPickupCounter = 0,
               SpecialPickupCounter = SpecialPickupCounter st + 1,
               RewardHandlers = RewardHandlers st @ [MakeRewardHandler EReward_None NAME_None 0],
               Random = Random st\<rparr>)"
  by (simp add: HasTier_CollectPickup GachaDraw_def Let_def AddPickupReward_empty)

text \<open>
  Claim C1 at a failing input. The example pool has the pickup groups 1, 2 and 3; the
  campaign asks for the special tier 5 at every draw (try count 1). On the first draw the
  special threshold is reached and the subset of the tier is empty. The weighted roll over
  the same random source returns the reward A; the draw records the sentinel
  \<open>FRewardHandler(EReward::None, NAME_None, 0)\<close> instead and resets both counters. The
  same happens on the normal branch, on the tenth draw of a campaign whose normal tier 4
  the pool does not have.
\<close>

theorem pity_fallback_counterexample:
  "0 < SpecialPickupGroup UnmatchedCampaign
   \<and> SpecialTryCount UnmatchedCampaign \<le> SpecialPickupCounter InitialGachaState + 1
   \<and> CollectPickup (GachaRandoms ExamplePool) (SpecialPickupGroup UnmatchedCampaign) = []
   \<and> RollRandomReward ExamplePool 0 (Random InitialGachaState)
       = Inr (Reward RewardA, PickupGroup RewardA, (\<lambda>i. 0))
   \<and> GachaDraw UnmatchedCampaign ExamplePool InitialGachaState =
       Inr \<lparr>TotalPickupCount = 1, NormalPickupCounter = 0, SpecialPickupCounter = 0,
            RewardHandlers = [MakeRewardHandler EReward_None NAME_None 0],
            Random = (\<lambda>i. 0)\<rparr>
   \<and> MakeRewardHandler EReward_None NAME_None 0 \<noteq> Reward RewardA
   \<and> 0 < NormalPickupGroup UnmatchedLongCampaign
   \<and> CollectPickup (GachaRandoms ExamplePool) (NormalPickupGroup UnmatchedLongCampaign) = []
   \<and> GachaDraw UnmatchedLongCampaign ExamplePool (InitialGachaState\<lparr>NormalPickupCounter := 9\<rparr>) =
       Inr \<lparr>TotalPickupCount = 1, NormalPickupCounter = 0, SpecialPickupCounter = 1,
            RewardHandlers = [MakeRewardHandler EReward_None NAME_None 0],
            Random = (\<lambda>i. 0)\<rparr>"
  by (simp add: example_defs UnmatchedCampaign_def UnmatchedLongCampaign_def)

text \<open>
  Claim C2. In a run of draws with the special tier enabled, a try count of at least one
  and a special counter that starts non-negative: two consecutive rewards of the special
  tier are at most \<open>SpecialTryCount\<close> draws apart, whatever the normal pity does; when
  the pool has an entry of the special tier, every \<open>SpecialTryCount\<close> consecutive draws
  hold such a reward. On a draw that reaches both thresholds the special branch is taken:
  the reward comes from \<open>AddPickupReward\<close> at the special tier and both counters are
  reset. The run returns whenever the pool has no null entry.
\<close>

theorem special_pity_gap:
  assumes sp: "0 < SpecialPickupGroup c"
    and tc: "1 \<le> SpecialTryCount c"
    and s0: "0 \<le> SpecialPickupCounter st"
    and h0: "RewardHandlers st = []"
  shows "(None \<notin> set (GachaRandoms rd) \<longrightarrow> (\<exists>st'. GachaLoop c rd k st = Inr st'))
    \<and> (\<forall>st'. GachaLoop c rd k st = Inr st' \<longrightarrow>
          length (RewardHandlers st') = k
          \<and> (\<forall>i j. i < j \<and> j < k
                \<and> GrantsTier rd (SpecialPickupGroup c) (RewardHandlers st' ! i)
                \<and> GrantsTier rd (SpecialPickupGroup c) (RewardHandlers st' ! j)
                \<and> (\<forall>m. i < m \<and> m < j \<longrightarrow>
                       \<not> GrantsTier rd (SpecialPickupGroup c) (RewardHandlers st' ! m))
              \<longrightarrow> int (j - i) \<le> SpecialTryCount c)
          \<and> (HasTier rd (SpecialPickupGroup c) \<longrightarrow>
               (\<forall>i. i + nat (SpecialTryCount c) \<le> k \<longrightarrow>
                  (\<exists>j. i \<le> j \<and> j < i + nat (SpecialTryCount c)
                     \<and> GrantsTier rd (SpecialPickupGroup c) (RewardHandlers st' ! j)))))
    \<and> (\<forall>s. 0 < NormalPickupGroup c \<and> 10 \<le> NormalPickupCounter s + 1
            \<and> SpecialTryCount c \<le> SpecialPickupCounter s + 1 \<longrightarrow>
          GachaDraw c rd s =
            Inr \<lparr>TotalPickupCount = TotalPickupCount s + 1, NormalPickupCounter = 0,
                 SpecialPickupCounter = 0,
                 RewardHandlers = RewardHandlers s
                   @ [fst (AddPickupReward (Some rd) (SpecialPickupGroup c) (Random s))],
                 Random = snd (AddPickupReward (Some rd) (SpecialPickupGroup c) (Random s))\<rparr>)"
proof (intro conjI allI impI)
  assume "None \<notin> set (GachaRandoms rd)"
  then show "\<exists>st'. GachaLoop c rd k st = Inr st'"
    by (rule GachaLoop_no_null)
next
  fix st'
  assume run: "GachaLoop c rd k st = Inr st'"
  show "length (RewardHandlers st') = k"
    using GachaLoop_outs [OF run] h0 by auto
next
  fix st' i j
  assume run: "GachaLoop c rd k st = Inr st'"
  assume ij: "i < j \<and> j < k
                \<and> GrantsTier rd (SpecialPickupGroup c) (RewardHandlers st' ! i)
                \<and> GrantsTier rd (SpecialPickupGroup c) (RewardHandlers st' ! j)
                \<and> (\<forall>m. i < m \<and> m < j \<longrightarrow>
                       \<not> GrantsTier rd (SpecialPickupGroup c) (RewardHandlers st' ! m))"
  define b where "b = j - i - 1"
  have le: "Suc i + b \<le> k" using ij by (simp add: b_def)
  obtain sa sb outs where sa: "GachaLoop c rd (Suc i) st = Inr sa"
    and sb: "GachaLoop c rd b sa = Inr sb"
    and len: "length outs = b"
    and app: "RewardHandlers sb = RewardHandlers sa @ outs"
    and nth: "\<forall>m<b. outs ! m = RewardHandlers st' ! (Suc i + m)"
    using GachaLoop_cut [OF run h0 le] by blast
  have ne: "CollectPickup (GachaRandoms rd) (SpecialPickupGroup c) \<noteq> []"
    using ij GrantsTier_CollectPickup by blast
  have quiet: "\<forall>r\<in>set outs. \<not> GrantsTier rd (SpecialPickupGroup c) r"
  proof
    fix r
    assume "r \<in> set outs"
    then obtain m where m: "m < b" "outs ! m = r"
      using len by (auto simp: in_set_conv_nth)
    then have "i < Suc i + m \<and> Suc i + m < j" by (simp add: b_def)
    with ij have "\<not> GrantsTier rd (SpecialPickupGroup c) (RewardHandlers st' ! (Suc i + m))"
      by blast
    with nth m show "\<not> GrantsTier rd (SpecialPickupGroup c) r" by auto
  qed
  have sa0: "0 \<le> SpecialPickupCounter sa"
    using GachaLoop_special_nonneg [OF sa s0] .
  have q: "SpecialPickupCounter sb = SpecialPickupCounter sa + int b
           \<and> (0 < b \<longrightarrow> SpecialPickupCounter sb < SpecialTryCount c)"
    using GachaLoop_special_quiet [OF sp ne sb app quiet] .
  have "int b + 1 \<le> SpecialTryCount c"
  proof (cases "0 < b")
    case True
    with q sa0 show ?thesis by simp
  next
    case False
    with tc show ?thesis by simp
  qed
  moreover have "int (j - i) = int b + 1"
    using ij by (simp add: b_def)
  ultimately show "int (j - i) \<le> SpecialTryCount c" by simp
next
  fix st' i
  assume run: "GachaLoop c rd k st = Inr st'"
  assume ht: "HasTier rd (SpecialPickupGroup c)"
  assume le: "i + nat (SpecialTryCount c) \<le> k"
  define b where "b = nat (SpecialTryCount c)"
  have bpos: "0 < b" "int b = SpecialTryCount c" using tc by (simp_all add: b_def)
  obtain sa sb outs where sa: "GachaLoop c rd i st = Inr sa"
    and sb: "GachaLoop c rd b sa = Inr sb"
    and len: "length outs = b"
    and app: "RewardHandlers sb = RewardHandlers sa @ outs"
    and nth: "\<forall>m<b. outs ! m = RewardHandlers st' ! (i + m)"
    using GachaLoop_cut [OF run h0, of i b] le by (auto simp: b_def)
  have ne: "CollectPickup (GachaRandoms rd) (SpecialPickupGroup c) \<noteq> []"
    using ht by (simp add: HasTier_CollectPickup)
  have sa0: "0 \<le> SpecialPickupCounter sa"
    using GachaLoop_special_nonneg [OF sa s0] .
  have "\<not> (\<forall>r\<in>set outs. \<not> GrantsTier rd (SpecialPickupGroup c) r)"
  proof
    assume "\<forall>r\<in>set outs. \<not> GrantsTier rd (SpecialPickupGroup c) r"
    then have "SpecialPickupCounter sb = SpecialPickupCounter sa + int b
             \<and> (0 < b \<longrightarrow> SpecialPickupCounter sb < SpecialTryCount c)"
      using GachaLoop_special_quiet [OF sp ne sb app] by blast
    with bpos sa0 show False by simp
  qed
  then obtain m where m: "m < b" "GrantsTier rd (SpecialPickupGroup c) (outs ! m)"
    using len by (auto simp: in_set_conv_nth)
  then have "i \<le> i + m \<and> i + m < i + nat (SpecialTryCount c)
             \<and> GrantsTier rd (SpecialPickupGroup c) (RewardHandlers st' ! (i + m))"
    using nth by (simp add: b_def)
  then show "\<exists>j. i \<le> j \<and> j < i + nat (SpecialTryCount c)
                 \<and> GrantsTier rd (SpecialPickupGroup c) (RewardHandlers st' ! j)"
    by blast
next
  fix s :: GachaState
  assume "0 < NormalPickupGroup c \<and> 10 \<le> NormalPickupCounter s + 1
            \<and> SpecialTryCount c \<le> SpecialPickupCounter s + 1"
  then show "GachaDraw c rd s =
            Inr \<lparr>TotalPickupCount = TotalPickupCount s + 1, NormalPickupCounter = 0,
                 SpecialPickupCounter = 0,
                 RewardHandlers = RewardHandlers s
                   @ [fst (AddPickupReward (Some rd) (SpecialPickupGroup c) (Random s))],
                 Random = snd (AddPickupReward (Some rd) (SpecialPickupGroup c) (Random s))\<rparr>"
    using sp by (simp add: GachaDraw_def Let_def split: prod.splits)
qed

text \<open>
  The theorem at the example pool with try count 2: four draws give A, C, A, C, and the
  two rewards of the special tier are two draws apart.
\<close>

theorem special_pity_gap_witness:
  "0 < SpecialPickupGroup ExampleCampaign \<and> 1 \<le> SpecialTryCount ExampleCampaign
   \<and> 0 \<le> SpecialPickupCounter InitialGachaState \<and> RewardHandlers InitialGachaState = []
   \<and> None \<notin> set (GachaRandoms ExamplePool)
   \<and> GachaLoop ExampleCampaign ExamplePool 4 InitialGachaState =
       Inr \<lparr>TotalPickupCount = 4, NormalPickupCounter = 0, SpecialPickupCounter = 0,
            RewardHandlers = [Reward RewardA, Reward RewardC, Reward RewardA, Reward RewardC],
            Random = (\<lambda>i. 0)\<rparr>
   \<and> GrantsTier ExamplePool (SpecialPickupGroup ExampleCampaign) (Reward RewardC)
   \<and> \<not> GrantsTier ExamplePool (SpecialPickupGroup ExampleCampaign) (Reward RewardA)
   \<and> int (3 - 1) \<le> SpecialTryCount ExampleCampaign"
proof -
  define fin where "fin =
       \<lparr>TotalPickupCount = 4, NormalPickupCounter = 0, SpecialPickupCounter = 0,
        RewardHandlers = [Reward RewardA, Reward RewardC, Reward RewardA, Reward RewardC],
        Random = (\<lambda>i. 0)\<rparr>"
  have run: "GachaLoop ExampleCampaign ExamplePool 4 InitialGachaState = Inr fin"
    by (simp add: fin_def eval_nat_numeral example_defs ExampleCampaign_def)
  have hyps: "0 < SpecialPickupGroup ExampleCampaign" "1 \<le> SpecialTryCount ExampleCampaign"
    "0 \<le> SpecialPickupCounter InitialGachaState" "RewardHandlers InitialGachaState = []"
    by (simp_all add: ExampleCampaign_def InitialGachaState_def)
  have tiers: "GrantsTier ExamplePool (SpecialPickupGroup ExampleCampaign) (Reward RewardC)"
    "\<not> GrantsTier ExamplePool (SpecialPickupGroup ExampleCampaign) (Reward RewardA)"
    "None \<notin> set (GachaRandoms ExamplePool)"
    by (simp_all add: GrantsTier_def ExampleCampaign_def ExamplePool_def RewardA_def RewardB_def
        RewardC_def MakeRewardHandler_def)
  have nths: "RewardHandlers fin ! Suc 0 = Reward RewardC"
    "RewardHandlers fin ! 2 = Reward RewardA" "RewardHandlers fin ! 3 = Reward RewardC"
    by (simp_all add: fin_def eval_nat_numeral)
  note body = special_pity_gap [OF hyps, of ExamplePool 4, THEN conjunct2, THEN conjunct1,
      THEN spec, THEN mp, OF run]
  note gap = body [THEN conjunct2, THEN conjunct1, THEN spec [of _ 1], THEN spec [of _ 3]]
  have "int (3 - 1) \<le> SpecialTryCount ExampleCampaign"
  proof (rule gap [THEN mp], intro conjI allI impI)
    fix m :: nat
    assume "1 < m \<and> m < 3"
    then have "m = 2" by simp
    then show "\<not> GrantsTier ExamplePool (SpecialPickupGroup ExampleCampaign)
                 (RewardHandlers fin ! m)"
      using tiers nths by simp
  qed (simp_all add: tiers nths)
  with run hyps tiers show ?thesis by (simp add: fin_def)
qed

text \<open>
  Claim C3, as the code has it. In a run of draws with the normal tier enabled, the special
  tier enabled and not below the normal tier, a pool that has an entry of the special
  tier, and a normal counter that starts non-negative: every 10 consecutive draws hold a
  draw whose reward is of the normal tier or above. The run returns whenever the pool has
  no null entry.
\<close>

theorem normal_pity_window:
  assumes np: "0 < NormalPickupGroup c"
    and ns: "NormalPickupGroup c \<le> SpecialPickupGroup c"
    and ht: "HasTier rd (SpecialPickupGroup c)"
    and n0: "0 \<le> NormalPickupCounter st"
    and h0: "RewardHandlers st = []"
  shows "(None \<notin> set (GachaRandoms rd) \<longrightarrow> (\<exists>st'. GachaLoop c rd k st = Inr st'))
    \<and> (\<forall>st'. GachaLoop c rd k st = Inr st' \<longrightarrow>
          length (RewardHandlers st') = k
          \<and> (\<forall>i. i + 10 \<le> k \<longrightarrow>
                (\<exists>j. i \<le> j \<and> j < i + 10
                   \<and> GrantsTier rd (NormalPickupGroup c) (RewardHandlers st' ! j))))"
proof (intro conjI allI impI)
  assume "None \<notin> set (GachaRandoms rd)"
  then show "\<exists>st'. GachaLoop c rd k st = Inr st'"
    by (rule GachaLoop_no_null)
next
  fix st'
  assume run: "GachaLoop c rd k st = Inr st'"
  show "length (RewardHandlers st') = k"
    using GachaLoop_outs [OF run] h0 by auto
next
  fix st' i
  assume run: "GachaLoop c rd k st = Inr st'"
  assume le: "i + 10 \<le> k"
  obtain sa sb outs where sa: "GachaLoop c rd i st = Inr sa"
    and sb: "GachaLoop c rd 10 sa = Inr sb"
    and len: "length outs = 10"
    and app: "RewardHandlers sb = RewardHandlers sa @ outs"
    and nth: "\<forall>m<10. outs ! m = RewardHandlers st' ! (i + m)"
    using GachaLoop_cut [OF run h0 le] by blast
  have ne: "CollectPickup (GachaRandoms rd) (SpecialPickupGroup c) \<noteq> []"
    using ht by (simp add: HasTier_CollectPickup)
  have sa0: "0 \<le> NormalPickupCounter sa"
    using GachaLoop_normal_nonneg [OF sa n0] .
  have "\<not> (\<forall>r\<in>set outs. \<not> GrantsTier rd (NormalPickupGroup c) r)"
  proof
    assume "\<forall>r\<in>set outs. \<not> GrantsTier rd (NormalPickupGroup c) r"
    then have "NormalPickupCounter sb = NormalPickupCounter sa + int 10
             \<and> ((0::nat) < 10 \<longrightarrow> NormalPickupCounter sb < 10)"
      using GachaLoop_normal_quiet [OF np ns ne sb app] by blast
    with sa0 show False by simp
  qed
  then obtain m where m: "m < 10" "GrantsTier rd (NormalPickupGroup c) (outs ! m)"
    using len by (auto simp: in_set_conv_nth)
  then have "i \<le> i + m \<and> i + m < i + 10
             \<and> GrantsTier rd (NormalPickupGroup c) (RewardHandlers st' ! (i + m))"
    using nth by simp
  then show "\<exists>j. i \<le> j \<and> j < i + 10
                 \<and> GrantsTier rd (NormalPickupGroup c) (RewardHandlers st' ! j)"
    by blast
qed

text \<open>
  The theorem at the example pool: nine rolls of A and the normal pity reward B on the
  tenth draw.
\<close>

theorem normal_pity_window_witness:
  "0 < NormalPickupGroup LongCampaign
   \<and> NormalPickupGroup LongCampaign \<le> SpecialPickupGroup LongCampaign
   \<and> HasTier ExamplePool (SpecialPickupGroup LongCampaign)
   \<and> 0 \<le> NormalPickupCounter InitialGachaState \<and> RewardHandlers InitialGachaState = []
   \<and> GachaLoop LongCampaign ExamplePool 10 InitialGachaState =
       Inr \<lparr>TotalPickupCount = 10, NormalPickupCounter = 0, SpecialPickupCounter = 10,
            RewardHandlers = replicate 9 (Reward RewardA) @ [Reward RewardB],
            Random = (\<lambda>i. 0)\<rparr>
   \<and> (\<exists>j<10. GrantsTier ExamplePool (NormalPickupGroup LongCampaign)
          ((replicate 9 (Reward RewardA) @ [Reward RewardB]) ! j))"
proof -
  have run: "GachaLoop LongCampaign ExamplePool 10 InitialGachaState =
       Inr \<lparr>TotalPickupCount = 10, NormalPickupCounter = 0, SpecialPickupCounter = 10,
            RewardHandlers = replicate 9 (Reward RewardA) @ [Reward RewardB],
            Random = (\<lambda>i. 0)\<rparr>"
    by (simp add: eval_nat_numeral example_defs LongCampaign_def)
  have hyps: "0 < NormalPickupGroup LongCampaign"
    "NormalPickupGroup LongCampaign \<le> SpecialPickupGroup LongCampaign"
    "HasTier ExamplePool (SpecialPickupGroup LongCampaign)"
    "0 \<le> NormalPickupCounter InitialGachaState" "RewardHandlers InitialGachaState = []"
    by (simp_all add: LongCampaign_def InitialGachaState_def HasTier_def ExamplePool_def
        RewardA_def RewardB_def RewardC_def)
  have "\<exists>j. 0 \<le> j \<and> j < 0 + 10
          \<and> GrantsTier ExamplePool (NormalPickupGroup LongCampaign)
              ((replicate 9 (Reward RewardA) @ [Reward RewardB]) ! j)"
    using normal_pity_window [OF hyps, of 10] run by simp
  then have "\<exists>j<10. GrantsTier ExamplePool (NormalPickupGroup LongCampaign)
          ((replicate 9 (Reward RewardA) @ [Reward RewardB]) ! j)"
    by simp
  with run hyps show ?thesis by simp
qed

text \<open>
  Claim C3 as stated fails for a pool without an entry of the normal tier: with the normal
  tier 4 the tenth draw takes the normal pity branch and records the sentinel, and none of
  the ten draws grants a reward of pickup group 4 or above. No roll of these draws reaches
  the normal tier.
\<close>

theorem normal_pity_window_counterexample:
  "0 < NormalPickupGroup UnmatchedLongCampaign
   \<and> GachaLoop UnmatchedLongCampaign ExamplePool 10 InitialGachaState =
       Inr \<lparr>TotalPickupCount = 10, NormalPickupCounter = 0, SpecialPickupCounter = 10,
            RewardHandlers =
              replicate 9 (Reward RewardA) @ [MakeRewardHandler EReward_None NAME_None 0],
            Random = (\<lambda>i. 0)\<rparr>
   \<and> \<not> GrantsTier ExamplePool (NormalPickupGroup UnmatchedLongCampaign) (Reward RewardA)
   \<and> \<not> GrantsTier ExamplePool (NormalPickupGroup UnmatchedLongCampaign)
         (MakeRewardHandler EReward_None NAME_None 0)"
  by (simp add: eval_nat_numeral example_defs UnmatchedLongCampaign_def GrantsTier_def)

text \<open>
  With the special tier switched off (\<open>SpecialPickupGroup = 0\<close>) the test
  \<open>PickupGroup >= SpecialPickupGroup\<close> after a roll holds for every entry of the example
  pool, so every roll resets the normal counter and the normal pity never comes: twelve
  draws, twelve times A.
\<close>

lemma normal_pity_starved_without_special:
  "0 < NormalPickupGroup NormalOnlyCampaign \<and> SpecialPickupGroup NormalOnlyCampaign = 0
   \<and> GachaLoop NormalOnlyCampaign ExamplePool 12 InitialGachaState =
       Inr \<lparr>TotalPickupCount = 12, NormalPickupCounter = 0, SpecialPickupCounter = 0,
            RewardHandlers = replicate 12 (Reward RewardA), Random = (\<lambda>i. 0)\<rparr>
   \<and> \<not> GrantsTier ExamplePool (NormalPickupGroup NormalOnlyCampaign) (Reward RewardA)"
  by (simp add: eval_nat_numeral example_defs NormalOnlyCampaign_def GrantsTier_def)

section \<open>Properties of the reward expansion\<close>

subsection \<open>Termination on layered tables\<close>

lemma RepeatBuild_returns:
  "(\<And>s. \<exists>x. build s = Some x) \<Longrightarrow> \<exists>x. RepeatBuild build n s = Some x"
proof (induction n arbitrary: s)
  case 0
  then show ?case by simp
next
  case (Suc n)
  obtain x where x: "build s = Some x" using Suc.prems by blast
  show ?case
  proof (cases x)
    case (Inl e)
    with x show ?thesis by simp
  next
    case (Inr p)
    obtain b s' where "p = (b, s')" by (cases p)
    with x Inr Suc.IH [OF Suc.prems, of s'] show ?thesis by simp
  qed
qed

lemma AddReward_returns:
  assumes "RewardType h = EReward_RewardData \<Longrightarrow>
           (\<And>s. \<exists>x. build (table (TypeRowName h)) s = Some x)"
  shows "\<exists>x. AddReward build table h s = Some x"
proof (cases "RewardType h = EReward_RewardData")
  case True
  then show ?thesis
    using RepeatBuild_returns [of "build (table (TypeRowName h))" "nat (Amount h)" s] assms
    by (simp add: AddReward_def)
next
  case False
  then show ?thesis by (simp add: AddReward_def)
qed

lemma AddStatics_returns:
  assumes "\<And>h s. h \<in> set hs \<Longrightarrow> RewardType h = EReward_RewardData \<Longrightarrow>
             \<exists>x. build (table (TypeRowName h)) s = Some x"
  shows "\<exists>x. AddStatics build table hs s = Some x"
  using assms
proof (induction hs arbitrary: s)
  case Nil
  then show ?case by simp
next
  case (Cons h hs)
  obtain x where x: "AddReward build table h s = Some x"
    using AddReward_returns [of h build table s] Cons.prems by auto
  show ?case
  proof (cases x)
    case (Inl e)
    with x show ?thesis by simp
  next
    case (Inr s')
    have "\<exists>x. AddStatics build table hs s' = Some x"
      using Cons.IH [of s'] Cons.prems by auto
    with x Inr show ?thesis by simp
  qed
qed

lemma SelectRandom_selected:
  "SelectRandom rs cv r = Inr (Some h) \<Longrightarrow> h \<in> set (RandomRewards rs)"
  by (induction rs cv r rule: SelectRandom.induct) (auto split: if_splits)

lemma BuildRewardData_body_returns:
  assumes "\<And>h s. h \<in> set (RewardRefs d) \<Longrightarrow> RewardType h = EReward_RewardData \<Longrightarrow>
             \<exists>x. build (table (TypeRowName h)) s = Some x"
  shows "\<exists>x. BuildRewardData_body build table (Some d) s = Some x"
proof -
  obtain x where x: "AddStatics build table (Statics d) s = Some x"
    using AddStatics_returns [of "Statics d" build table s] assms
    by (auto simp: RewardRefs_def)
  show ?thesis
  proof (cases x)
    case (Inl e)
    with x show ?thesis by (simp add: BuildRewardData_body_def)
  next
    case (Inr s1)
    show ?thesis
    proof (cases "Randoms d = []")
      case True
      with x Inr show ?thesis by (simp add: BuildRewardData_body_def)
    next
      case False
      obtain n g' where rr: "RandRange 1 (TotalWeight d) (snd s1) = (n, g')"
        by (cases "RandRange 1 (TotalWeight d) (snd s1)")
      show ?thesis
      proof (cases "SelectRandom (Randoms d) 0 n")
        case (Inl e)
        with x Inr False rr show ?thesis by (simp add: BuildRewardData_body_def)
      next
        case sel: (Inr sel)
        show ?thesis
        proof (cases sel)
          case None
          with x Inr False rr sel show ?thesis by (simp add: BuildRewardData_body_def)
        next
          case (Some h)
          then have "h \<in> set (RewardRefs d)"
            using sel SelectRandom_selected [of "Randoms d" 0 n h] by (simp add: RewardRefs_def)
          then obtain y where "AddReward build table h (fst s1, g') = Some y"
            using AddReward_returns [of h build table "(fst s1, g')"] assms by auto
          with x Inr False rr sel Some show ?thesis
            by (cases y) (simp_all add: BuildRewardData_body_def)
        qed
      qed
    qed
  qed
qed

lemma BuildRewardData_returns:
  assumes lay: "Layered table rank"
  shows "(\<forall>h\<in>set (RewardRefs d). RewardType h = EReward_RewardData
            \<longrightarrow> rank (TypeRowName h) < n) \<Longrightarrow> n < depth \<Longrightarrow>
         \<exists>x. BuildRewardData depth table (Some d) s = Some x"
proof (induction depth arbitrary: d n s)
  case 0
  then show ?case by simp
next
  case (Suc depth)
  have "\<exists>x. BuildRewardData_body (BuildRewardData depth table) table (Some d) s = Some x"
  proof (rule BuildRewardData_body_returns)
    fix h s'
    assume h: "h \<in> set (RewardRefs d)" "RewardType h = EReward_RewardData"
    then have r: "rank (TypeRowName h) < n" using Suc.prems(1) by blast
    then have dpos: "0 < depth" using Suc.prems(2) by simp
    show "\<exists>x. BuildRewardData depth table (table (TypeRowName h)) s' = Some x"
    proof (cases "table (TypeRowName h)")
      case None
      obtain m where "depth = Suc m" using dpos by (cases depth) auto
      with None show ?thesis by (simp add: BuildRewardData_body_def)
    next
      case (Some d')
      have "\<forall>h'\<in>set (RewardRefs d'). RewardType h' = EReward_RewardData
              \<longrightarrow> rank (TypeRowName h') < rank (TypeRowName h)"
        using lay Some by (simp add: Layered_def)
      moreover have "rank (TypeRowName h) < depth" using r Suc.prems(2) by simp
      ultimately show ?thesis
        using Suc.IH [of d' "rank (TypeRowName h)" s'] Some by simp
    qed
  qed
  then show ?case by simp
qed

subsection \<open>What a run appends\<close>

lemma AtomicExtension_iff:
  "AtomicExtension old new \<longleftrightarrow>
     (\<exists>added. new = old @ added \<and> (\<forall>h\<in>set added. RewardType h \<noteq> EReward_RewardData))"
proof
  assume a: "AtomicExtension old new"
  then have "new = old @ drop (length old) new"
    by (metis AtomicExtension_def append_take_drop_id)
  with a show "\<exists>added. new = old @ added \<and> (\<forall>h\<in>set added. RewardType h \<noteq> EReward_RewardData)"
    unfolding AtomicExtension_def list_all_iff by blast
next
  assume "\<exists>added. new = old @ added \<and> (\<forall>h\<in>set added. RewardType h \<noteq> EReward_RewardData)"
  then show "AtomicExtension old new"
    by (auto simp: AtomicExtension_def list_all_iff)
qed

lemma AtomicExtension_refl: "AtomicExtension xs xs"
  by (simp add: AtomicExtension_iff)

lemma AtomicExtension_trans:
  "AtomicExtension xs ys \<Longrightarrow> AtomicExtension ys zs \<Longrightarrow> AtomicExtension xs zs"
  unfolding AtomicExtension_iff by auto

lemma AtomicExtension_snoc:
  "RewardType h \<noteq> EReward_RewardData \<Longrightarrow> AtomicExtension xs (xs @ [h])"
  by (simp add: AtomicExtension_iff)

lemma RepeatBuild_extends:
  assumes "\<And>s b s'. build s = Some (Inr (b, s')) \<Longrightarrow> AtomicExtension (fst s) (fst s')"
  shows "RepeatBuild build n s = Some (Inr s') \<Longrightarrow> AtomicExtension (fst s) (fst s')"
proof (induction n arbitrary: s)
  case 0
  then show ?case by (simp add: AtomicExtension_refl)
next
  case (Suc n)
  then obtain b s1 where b: "build s = Some (Inr (b, s1))"
    and r: "RepeatBuild build n s1 = Some (Inr s')"
    by (auto split: option.splits sum.splits)
  show ?case
    using AtomicExtension_trans [OF assms [OF b] Suc.IH [OF r]] .
qed

lemma AddReward_extends:
  assumes "\<And>d s b s'. build d s = Some (Inr (b, s')) \<Longrightarrow> AtomicExtension (fst s) (fst s')"
    and "AddReward build table h s = Some (Inr s')"
  shows "AtomicExtension (fst s) (fst s')"
proof (cases "RewardType h = EReward_RewardData")
  case True
  then have "RepeatBuild (build (table (TypeRowName h))) (nat (Amount h)) s = Some (Inr s')"
    using assms(2) by (simp add: AddReward_def)
  then show ?thesis
    using RepeatBuild_extends [of "build (table (TypeRowName h))"] assms(1) by blast
next
  case False
  then show ?thesis
    using assms(2) by (auto simp: AddReward_def AtomicExtension_snoc)
qed

lemma AddStatics_extends:
  assumes "\<And>d s b s'. build d s = Some (Inr (b, s')) \<Longrightarrow> AtomicExtension (fst s) (fst s')"
  shows "AddStatics build table hs s = Some (Inr s') \<Longrightarrow> AtomicExtension (fst s) (fst s')"
proof (induction hs arbitrary: s)
  case Nil
  then show ?case by (simp add: AtomicExtension_refl)
next
  case (Cons h hs)
  then obtain s1 where a: "AddReward build table h s = Some (Inr s1)"
    and r: "AddStatics build table hs s1 = Some (Inr s')"
    by (auto split: option.splits sum.splits)
  show ?case
    using AtomicExtension_trans [OF AddReward_extends [OF assms a] Cons.IH [OF r]] .
qed

lemma BuildRewardData_body_extends:
  assumes build: "\<And>d s b s'. build d s = Some (Inr (b, s')) \<Longrightarrow> AtomicExtension (fst s) (fst s')"
    and res: "BuildRewardData_body build table d s = Some (Inr (b, s'))"
  shows "AtomicExtension (fst s) (fst s') \<and> (d \<noteq> None \<longrightarrow> b = (fst s' \<noteq> []))"
proof (cases d)
  case None
  then show ?thesis
    using res by (auto simp: BuildRewardData_body_def AtomicExtension_refl)
next
  case (Some dd)
  then obtain s1 where st: "AddStatics build table (Statics dd) s = Some (Inr s1)"
    using res by (auto simp: BuildRewardData_body_def split: option.splits sum.splits)
  have e1: "AtomicExtension (fst s) (fst s1)"
    using AddStatics_extends [OF build st] .
  show ?thesis
  proof (cases "Randoms dd = []")
    case True
    with Some st res e1 show ?thesis by (auto simp: BuildRewardData_body_def)
  next
    case False
    obtain n g' where rr: "RandRange 1 (TotalWeight dd) (snd s1) = (n, g')"
      by (cases "RandRange 1 (TotalWeight dd) (snd s1)")
    show ?thesis
    proof (cases "SelectRandom (Randoms dd) 0 n")
      case (Inl e)
      with Some st False rr res show ?thesis by (simp add: BuildRewardData_body_def)
    next
      case sel: (Inr sel)
      show ?thesis
      proof (cases sel)
        case None
        with Some st False rr sel res e1 show ?thesis
          by (auto simp: BuildRewardData_body_def)
      next
        case h: (Some h)
        have unf: "(case AddReward build table h (fst s1, g') of
                 None \<Rightarrow> None
               | Some (Inl e) \<Rightarrow> Some (Inl e)
               | Some (Inr s2) \<Rightarrow> Some (Inr (fst s2 \<noteq> [], s2))) = Some (Inr (b, s'))"
          using Some st False rr sel h res by (simp add: BuildRewardData_body_def)
        show ?thesis
        proof (cases "AddReward build table h (fst s1, g')")
          case None
          with unf show ?thesis by simp
        next
          case y: (Some y)
          show ?thesis
          proof (cases y)
            case (Inl e)
            with unf y show ?thesis by simp
          next
            case (Inr s2)
            have a: "AddReward build table h (fst s1, g') = Some (Inr s2)"
              using y Inr by simp
            have fin: "b = (fst s2 \<noteq> [])" "s' = s2"
              using unf a by auto
            have "AtomicExtension (fst (fst s1, g')) (fst s2)"
              using AddReward_extends [OF build a] .
            then have "AtomicExtension (fst s) (fst s2)"
              using e1 by (auto intro: AtomicExtension_trans)
            with fin Some show ?thesis by simp
          qed
        qed
      qed
    qed
  qed
qed

lemma BuildRewardData_extends:
  "BuildRewardData depth table d s = Some (Inr (b, s')) \<Longrightarrow>
   AtomicExtension (fst s) (fst s') \<and> (d \<noteq> None \<longrightarrow> b = (fst s' \<noteq> []))"
proof (induction depth arbitrary: d s b s')
  case 0
  then show ?case by simp
next
  case (Suc depth)
  have "BuildRewardData_body (BuildRewardData depth table) table d s = Some (Inr (b, s'))"
    using Suc.prems by simp
  then show ?case
    using BuildRewardData_body_extends [of "BuildRewardData depth table" table d s b s'] Suc.IH
    by blast
qed

subsection \<open>Runs without a null entry\<close>

lemma RepeatBuild_no_error:
  assumes "\<And>s e. build s \<noteq> Some (Inl e)"
  shows "RepeatBuild build n s \<noteq> Some (Inl e)"
proof (induction n arbitrary: s)
  case 0
  then show ?case by simp
next
  case (Suc n)
  show ?case
  proof (cases "build s")
    case None
    then show ?thesis by simp
  next
    case (Some x)
    show ?thesis
    proof (cases x)
      case (Inl e')
      with Some assms show ?thesis by simp
    next
      case (Inr p)
      obtain b s' where "p = (b, s')" by (cases p)
      with Some Inr Suc.IH [of s'] show ?thesis by simp
    qed
  qed
qed

lemma AddReward_no_error:
  assumes "\<And>d s e. build (table d) s \<noteq> Some (Inl e)"
  shows "AddReward build table h s \<noteq> Some (Inl e)"
  using RepeatBuild_no_error [of "build (table (TypeRowName h))" "nat (Amount h)" s e] assms
  by (simp add: AddReward_def)

lemma AddStatics_no_error:
  assumes "\<And>d s e. build (table d) s \<noteq> Some (Inl e)"
  shows "AddStatics build table hs s \<noteq> Some (Inl e)"
proof (induction hs arbitrary: s)
  case Nil
  then show ?case by simp
next
  case (Cons h hs)
  show ?case
  proof (cases "AddReward build table h s")
    case None
    then show ?thesis by simp
  next
    case (Some x)
    show ?thesis
    proof (cases x)
      case (Inl e')
      with Some AddReward_no_error [of build table h s e'] assms show ?thesis by simp
    next
      case (Inr s')
      with Some Cons.IH [of s'] show ?thesis by simp
    qed
  qed
qed

lemma SelectRandom_no_error:
  "None \<notin> set rs \<Longrightarrow> SelectRandom rs cv r \<noteq> Inl e"
  by (induction rs cv r rule: SelectRandom.induct) auto

lemma BuildRewardData_body_no_error:
  assumes build: "\<And>d s e. build (table d) s \<noteq> Some (Inl e)"
    and nn: "\<And>dd. d = Some dd \<Longrightarrow> None \<notin> set (Randoms dd)"
  shows "BuildRewardData_body build table d s \<noteq> Some (Inl e)"
proof (cases d)
  case None
  then show ?thesis by (simp add: BuildRewardData_body_def)
next
  case (Some dd)
  show ?thesis
  proof (cases "AddStatics build table (Statics dd) s")
    case None
    with Some show ?thesis by (simp add: BuildRewardData_body_def)
  next
    case x: (Some x)
    show ?thesis
    proof (cases x)
      case (Inl e')
      with x AddStatics_no_error [of build table "Statics dd" s e'] build show ?thesis by simp
    next
      case (Inr s1)
      obtain n g' where rr: "RandRange 1 (TotalWeight dd) (snd s1) = (n, g')"
        by (cases "RandRange 1 (TotalWeight dd) (snd s1)")
      show ?thesis
      proof (cases "SelectRandom (Randoms dd) 0 n")
        case (Inl e')
        with SelectRandom_no_error [OF nn [OF Some], of 0 n e'] show ?thesis by simp
      next
        case sel: (Inr sel)
        show ?thesis
        proof (cases sel)
          case None
          with Some x Inr rr sel show ?thesis by (simp add: BuildRewardData_body_def)
        next
          case h: (Some h)
          show ?thesis
          proof (cases "AddReward build table h (fst s1, g')")
            case None
            with Some x Inr rr sel h show ?thesis by (simp add: BuildRewardData_body_def)
          next
            case y: (Some y)
            show ?thesis
            proof (cases y)
              case (Inl e')
              with y AddReward_no_error [of build table h "(fst s1, g')" e'] build
              show ?thesis by simp
            next
              case (Inr s2)
              with Some x \<open>x = Inr s1\<close> rr sel h y show ?thesis
                by (simp add: BuildRewardData_body_def)
            qed
          qed
        qed
      qed
    qed
  qed
qed

lemma BuildRewardData_no_error:
  assumes table: "\<And>k dk. table k = Some dk \<Longrightarrow> None \<notin> set (Randoms dk)"
  shows "(\<And>dd. d = Some dd \<Longrightarrow> None \<notin> set (Randoms dd)) \<Longrightarrow>
         BuildRewardData depth table d s \<noteq> Some (Inl e)"
proof (induction depth arbitrary: d s e)
  case 0
  then show ?case by simp
next
  case (Suc depth)
  have "BuildRewardData_body (BuildRewardData depth table) table d s \<noteq> Some (Inl e)"
  proof (rule BuildRewardData_body_no_error)
    fix k s' e'
    show "BuildRewardData depth table (table k) s' \<noteq> Some (Inl e')"
      using Suc.IH [of "table k" s' e'] table by blast
  next
    fix dd
    assume "d = Some dd"
    then show "None \<notin> set (Randoms dd)" using Suc.prems by blast
  qed
  then show ?case by simp
qed

subsection \<open>The depth bound does not change a result\<close>

lemma RepeatBuild_mono:
  assumes "\<And>s x. build s = Some x \<Longrightarrow> build' s = Some x"
  shows "RepeatBuild build n s = Some x \<Longrightarrow> RepeatBuild build' n s = Some x"
proof (induction n arbitrary: s)
  case 0
  then show ?case by simp
next
  case (Suc n)
  then obtain y where y: "build s = Some y"
    by (cases "build s") auto
  have y': "build' s = Some y" using assms [OF y] .
  show ?case
  proof (cases y)
    case (Inl e)
    with y y' Suc.prems show ?thesis by auto
  next
    case (Inr p)
    obtain b s1 where p: "p = (b, s1)" by (cases p)
    have "RepeatBuild build n s1 = Some x"
      using y Inr p Suc.prems by simp
    then have "RepeatBuild build' n s1 = Some x" by (rule Suc.IH)
    with y' Inr p show ?thesis by simp
  qed
qed

lemma AddReward_mono:
  assumes "\<And>d s x. build d s = Some x \<Longrightarrow> build' d s = Some x"
  shows "AddReward build table h s = Some x \<Longrightarrow> AddReward build' table h s = Some x"
  using RepeatBuild_mono [of "build (table (TypeRowName h))" "build' (table (TypeRowName h))"
      "nat (Amount h)" s x] assms
  by (auto simp: AddReward_def split: if_splits)

lemma AddStatics_mono:
  assumes "\<And>d s x. build d s = Some x \<Longrightarrow> build' d s = Some x"
  shows "AddStatics build table hs s = Some x \<Longrightarrow> AddStatics build' table hs s = Some x"
proof (induction hs arbitrary: s)
  case Nil
  then show ?case by simp
next
  case (Cons h hs)
  then obtain y where y: "AddReward build table h s = Some y"
    by (cases "AddReward build table h s") auto
  have y': "AddReward build' table h s = Some y"
    using AddReward_mono [of build build' table h s y] assms y by blast
  show ?case
  proof (cases y)
    case (Inl e)
    with y y' Cons.prems show ?thesis by auto
  next
    case (Inr s1)
    have "AddStatics build table hs s1 = Some x"
      using y Inr Cons.prems by simp
    then have "AddStatics build' table hs s1 = Some x" by (rule Cons.IH)
    with y' Inr show ?thesis by simp
  qed
qed

lemma BuildRewardData_body_mono:
  assumes build: "\<And>d s x. build d s = Some x \<Longrightarrow> build' d s = Some x"
    and res: "BuildRewardData_body build table d s = Some x"
  shows "BuildRewardData_body build' table d s = Some x"
proof (cases d)
  case None
  with res show ?thesis by (simp add: BuildRewardData_body_def)
next
  case (Some dd)
  then obtain y where y: "AddStatics build table (Statics dd) s = Some y"
    using res by (cases "AddStatics build table (Statics dd) s")
      (auto simp: BuildRewardData_body_def)
  have y': "AddStatics build' table (Statics dd) s = Some y"
    using AddStatics_mono [of build build' table "Statics dd" s y] build y by blast
  show ?thesis
  proof (cases y)
    case (Inl e)
    with Some y y' res show ?thesis by (auto simp: BuildRewardData_body_def)
  next
    case (Inr s1)
    show ?thesis
    proof (cases "Randoms dd = []")
      case True
      with Some y y' Inr res show ?thesis by (auto simp: BuildRewardData_body_def)
    next
      case False
      obtain n g' where rr: "RandRange 1 (TotalWeight dd) (snd s1) = (n, g')"
        by (cases "RandRange 1 (TotalWeight dd) (snd s1)")
      show ?thesis
      proof (cases "SelectRandom (Randoms dd) 0 n")
        case (Inl e)
        with Some y y' Inr False rr res show ?thesis
          by (auto simp: BuildRewardData_body_def)
      next
        case sel: (Inr sel)
        show ?thesis
        proof (cases sel)
          case None
          with Some y y' Inr False rr sel res show ?thesis
            by (auto simp: BuildRewardData_body_def)
        next
          case h: (Some h)
          have unf: "(case AddReward build table h (fst s1, g') of
                   None \<Rightarrow> None
                 | Some (Inl e) \<Rightarrow> Some (Inl e)
                 | Some (Inr s2) \<Rightarrow> Some (Inr (fst s2 \<noteq> [], s2))) = Some x"
            using Some y Inr False rr sel h res by (simp add: BuildRewardData_body_def)
          then obtain z where z: "AddReward build table h (fst s1, g') = Some z"
            by (cases "AddReward build table h (fst s1, g')") auto
          have z': "AddReward build' table h (fst s1, g') = Some z"
            using AddReward_mono [of build build' table h "(fst s1, g')" z] build z by blast
          have "(case AddReward build' table h (fst s1, g') of
                   None \<Rightarrow> None
                 | Some (Inl e) \<Rightarrow> Some (Inl e)
                 | Some (Inr s2) \<Rightarrow> Some (Inr (fst s2 \<noteq> [], s2))) = Some x"
            using unf z z' by simp
          with Some y' Inr False rr sel h show ?thesis
            by (simp add: BuildRewardData_body_def)
        qed
      qed
    qed
  qed
qed

lemma BuildRewardData_Suc:
  "BuildRewardData depth table d s = Some x \<Longrightarrow> BuildRewardData (Suc depth) table d s = Some x"
proof (induction depth arbitrary: d s x)
  case 0
  then show ?case by simp
next
  case (Suc depth)
  have "BuildRewardData_body (BuildRewardData depth table) table d s = Some x"
    using Suc.prems by simp
  then have "BuildRewardData_body (BuildRewardData (Suc depth) table) table d s = Some x"
    using BuildRewardData_body_mono [of "BuildRewardData depth table"
        "BuildRewardData (Suc depth) table" table d s x] Suc.IH
    by blast
  then show ?case by simp
qed

lemma BuildRewardData_deeper:
  "BuildRewardData depth table d s = Some x \<Longrightarrow> depth \<le> depth' \<Longrightarrow>
   BuildRewardData depth' table d s = Some x"
proof (induction depth' arbitrary: depth)
  case 0
  then show ?case by simp
next
  case (Suc depth')
  show ?case
  proof (cases "depth = Suc depth'")
    case True
    with Suc.prems show ?thesis by simp
  next
    case False
    with Suc.prems have "depth \<le> depth'" by simp
    then have "BuildRewardData depth' table d s = Some x"
      using Suc.IH Suc.prems(1) by blast
    then show ?thesis by (rule BuildRewardData_Suc)
  qed
qed

subsection \<open>A cycle never returns\<close>

lemma cycle_never_returns:
  "BuildRewardData depth CycleTable (Some CycleRowA) s = None
   \<and> BuildRewardData depth CycleTable (Some CycleRowB) s = None"
proof (induction depth arbitrary: s)
  case 0
  then show ?case by simp
next
  case (Suc depth)
  then show ?case
    by (simp add: BuildRewardData_body_def AddReward_def CycleTable_def CycleRowA_def
        CycleRowB_def MakeRewardHandler_def)
qed

text \<open>
  The static rewards up to the first one of type \<open>RewardData\<close> are appended; when the
  build of the row it names does not return, neither does the loop over the static
  rewards.
\<close>

lemma AddStatics_stuck:
  assumes first: "dropWhile (\<lambda>h. RewardType h \<noteq> EReward_RewardData) hs = h # rest"
    and pos: "0 < Amount h"
    and stuck: "\<And>s'. build (table (TypeRowName h)) s' = None"
  shows "AddStatics build table hs s = None"
  using first
proof (induction hs arbitrary: s)
  case Nil
  then show ?case by simp
next
  case (Cons x xs)
  show ?case
  proof (cases "RewardType x = EReward_RewardData")
    case True
    with Cons.prems have x: "x = h" by simp
    obtain n where n: "nat (Amount h) = Suc n"
      using pos by (cases "nat (Amount h)") auto
    have "AddReward build table x s = None"
      using True x n stuck by (simp add: AddReward_def)
    then show ?thesis by simp
  next
    case False
    with Cons.prems have "dropWhile (\<lambda>h. RewardType h \<noteq> EReward_RewardData) xs = h # rest"
      by simp
    from Cons.IH [OF this] False show ?thesis
      by (simp add: AddReward_def)
  qed
qed

lemma static_cycle_never_returns:
  assumes cyc: "StaticCycle table ks"
  shows "k \<in> set ks \<Longrightarrow> BuildRewardData depth table (table k) s = None"
proof (induction depth arbitrary: k s)
  case 0
  then show ?case by simp
next
  case (Suc depth)
  from cyc Suc.prems
  have row: "case table k of
               None \<Rightarrow> False
             | Some d \<Rightarrow>
                 (case dropWhile (\<lambda>h. RewardType h \<noteq> EReward_RewardData) (Statics d) of
                    [] \<Rightarrow> False
                  | h # rest \<Rightarrow> 0 < Amount h \<and> TypeRowName h \<in> set ks)"
    by (simp add: StaticCycle_def list_all_iff)
  then obtain d where d: "table k = Some d"
    by (cases "table k") auto
  with row obtain h rest where
    first: "dropWhile (\<lambda>h. RewardType h \<noteq> EReward_RewardData) (Statics d) = h # rest"
    and pos: "0 < Amount h" and next_key: "TypeRowName h \<in> set ks"
    by (cases "dropWhile (\<lambda>h. RewardType h \<noteq> EReward_RewardData) (Statics d)") auto
  have stuck: "\<And>s'. BuildRewardData depth table (table (TypeRowName h)) s' = None"
    using Suc.IH [OF next_key] .
  have "AddStatics (BuildRewardData depth table) table (Statics d) s = None"
    by (rule AddStatics_stuck [OF first pos]) (rule stuck)
  then show ?case
    using d by (simp add: BuildRewardData_body_def)
qed

text \<open>
  Claim C5, as the code has it. \<open>BuildRewardData\<close> has no guard against cycles and no
  result \<open>CyclicRewardDefinition\<close>. On a table without cycles (layered by a rank) the
  expansion of a row returns once the depth allowed exceeds the rank of the row, with the
  same result at every greater depth; a run that returns a value has appended only
  handlers that are not of type \<open>RewardData\<close>, and returns whether the list is non-empty;
  when no row has a null random entry the run returns a value. On rows that form a cycle
  through their static rewards the expansion returns at no depth, neither a value nor an
  error.
\<close>

theorem BuildRewardData_layered_returns:
  "(Layered table rank \<and> table k = Some d \<and> rank k < depth \<longrightarrow>
      (\<exists>x. BuildRewardData depth table (Some d) s = Some x
            \<and> (\<forall>depth'. depth \<le> depth' \<longrightarrow> BuildRewardData depth' table (Some d) s = Some x))
    \<and> (\<forall>b s'. BuildRewardData depth table (Some d) s = Some (Inr (b, s')) \<longrightarrow>
           AtomicExtension (fst s) (fst s') \<and> b = (fst s' \<noteq> []))
    \<and> ((\<forall>k' d'. table k' = Some d' \<longrightarrow> None \<notin> set (Randoms d')) \<longrightarrow>
         (\<exists>b s'. BuildRewardData depth table (Some d) s = Some (Inr (b, s')))))
   \<and> (StaticCycle cyclic ks \<and> c \<in> set ks \<longrightarrow>
        (\<forall>n t. BuildRewardData n cyclic (cyclic c) t = None))"
proof (intro conjI impI)
  assume a: "Layered table rank \<and> table k = Some d \<and> rank k < depth"
  then have lay: "Layered table rank" and row: "table k = Some d" and depth: "rank k < depth"
    by simp_all
  have refs: "\<forall>h\<in>set (RewardRefs d). RewardType h = EReward_RewardData
                \<longrightarrow> rank (TypeRowName h) < rank k"
    using lay row by (simp add: Layered_def)
  obtain x where x: "BuildRewardData depth table (Some d) s = Some x"
    using BuildRewardData_returns [OF lay refs depth] by blast
  have deeper: "\<forall>depth'. depth \<le> depth' \<longrightarrow> BuildRewardData depth' table (Some d) s = Some x"
    using BuildRewardData_deeper [OF x] by blast
  from x deeper
  show "\<exists>x. BuildRewardData depth table (Some d) s = Some x
            \<and> (\<forall>depth'. depth \<le> depth' \<longrightarrow> BuildRewardData depth' table (Some d) s = Some x)"
    by blast
  show "\<forall>b s'. BuildRewardData depth table (Some d) s = Some (Inr (b, s')) \<longrightarrow>
           AtomicExtension (fst s) (fst s') \<and> b = (fst s' \<noteq> [])"
    using BuildRewardData_extends [of depth table "Some d" s] by blast
  assume nn: "\<forall>k' d'. table k' = Some d' \<longrightarrow> None \<notin> set (Randoms d')"
  have "\<And>e. BuildRewardData depth table (Some d) s \<noteq> Some (Inl e)"
  proof (rule BuildRewardData_no_error)
    fix k' dk
    assume "table k' = Some dk"
    then show "None \<notin> set (Randoms dk)" using nn by blast
  next
    fix dd
    assume "Some d = Some dd"
    then show "None \<notin> set (Randoms dd)" using nn row by auto
  qed
  with x obtain p where "x = Inr p" by (cases x) auto
  with x show "\<exists>b s'. BuildRewardData depth table (Some d) s = Some (Inr (b, s'))"
    by (cases p) auto
next
  assume "StaticCycle cyclic ks \<and> c \<in> set ks"
  then show "\<forall>n t. BuildRewardData n cyclic (cyclic c) t = None"
    using static_cycle_never_returns [of cyclic ks c] by blast
qed

text \<open>
  The theorem at the bundle table: the bundle row has rank 1, and at depth 2 its expansion
  is coins, two potions and the random reward; and at the two rows that reference each
  other, where the expansion of A has not returned at depth 5.
\<close>

lemmas bundle_defs =
  BundleTable_def BundleRow_def PackRow_def BundleRank_def MakeRewardHandler_def
  BuildRewardData_body_def AddReward_def RandRange_def Let_def

theorem BuildRewardData_layered_returns_witness:
  "Layered BundleTable BundleRank \<and> BundleTable ''Bundle'' = Some BundleRow
   \<and> BundleRank ''Bundle'' < 2
   \<and> BuildRewardData 2 BundleTable (Some BundleRow) ([], (\<lambda>i. 0)) =
       Some (Inr (True,
         ([MakeRewardHandler EReward_Currency ''Coin'' 10,
           MakeRewardHandler EReward_Item ''Potion'' 1,
           MakeRewardHandler EReward_Item ''Potion'' 1,
           MakeRewardHandler EReward_Item ''Gem'' 1], (\<lambda>i. 0))))
   \<and> AtomicExtension []
        [MakeRewardHandler EReward_Currency ''Coin'' 10,
         MakeRewardHandler EReward_Item ''Potion'' 1,
         MakeRewardHandler EReward_Item ''Potion'' 1,
         MakeRewardHandler EReward_Item ''Gem'' 1]
   \<and> StaticCycle CycleTable [''A'', ''B'']
   \<and> BuildRewardData 5 CycleTable (CycleTable ''A'') ([], (\<lambda>i. 0)) = None"
proof -
  have lay: "Layered BundleTable BundleRank"
    by (auto simp: Layered_def RewardRefs_def bundle_defs split: if_splits)
  have row: "BundleTable ''Bundle'' = Some BundleRow"
    by (simp add: BundleTable_def)
  have depth: "BundleRank ''Bundle'' < 2"
    by (simp add: BundleRank_def)
  have run: "BuildRewardData 2 BundleTable (Some BundleRow) ([], (\<lambda>i. 0)) =
       Some (Inr (True,
         ([MakeRewardHandler EReward_Currency ''Coin'' 10,
           MakeRewardHandler EReward_Item ''Potion'' 1,
           MakeRewardHandler EReward_Item ''Potion'' 1,
           MakeRewardHandler EReward_Item ''Gem'' 1], (\<lambda>i. 0))))"
    by (simp add: eval_nat_numeral bundle_defs)
  have cyc: "StaticCycle CycleTable [''A'', ''B'']"
    by (simp add: StaticCycle_def CycleTable_def CycleRowA_def CycleRowB_def
        MakeRewardHandler_def)
  have mem: "''A'' \<in> set [''A'', ''B'']"
    by simp
  note inst = BuildRewardData_layered_returns [of BundleTable BundleRank "''Bundle''" BundleRow
      2 "([], (\<lambda>i. 0))" CycleTable "[''A'', ''B'']" "''A''"]
  note layered = inst [THEN conjunct1, THEN mp, OF conjI [OF lay conjI [OF row depth]]]
  have "AtomicExtension (fst (([], (\<lambda>i. 0)) :: BuildState))
          (fst (([MakeRewardHandler EReward_Currency ''Coin'' 10,
           MakeRewardHandler EReward_Item ''Potion'' 1,
           MakeRewardHandler EReward_Item ''Potion'' 1,
           MakeRewardHandler EReward_Item ''Gem'' 1], (\<lambda>i. 0)) :: BuildState))"
    using layered [THEN conjunct2, THEN conjunct1, THEN spec, THEN spec, THEN mp, OF run]
    by (rule conjunct1)
  then have ext: "AtomicExtension []
        [MakeRewardHandler EReward_Currency ''Coin'' 10,
         MakeRewardHandler EReward_Item ''Potion'' 1,
         MakeRewardHandler EReward_Item ''Potion'' 1,
         MakeRewardHandler EReward_Item ''Gem'' 1]"
    by simp
  have stuck: "BuildRewardData 5 CycleTable (CycleTable ''A'') ([], (\<lambda>i. 0)) = None"
    using inst [THEN conjunct2, THEN mp, OF conjI [OF cyc mem], THEN spec, THEN spec] .
  from lay row depth run ext cyc stuck show ?thesis by blast
qed

text \<open>
  Claim C5 as stated fails on a cycle: where row A references row B and row B references
  row A, the expansion of A returns at no depth, neither a value nor an error.
\<close>

theorem BuildRewardData_cycle_counterexample:
  "CycleTable ''A'' = Some CycleRowA \<and> CycleTable ''B'' = Some CycleRowB
   \<and> Statics CycleRowA = [MakeRewardHandler EReward_RewardData ''B'' 1]
   \<and> Statics CycleRowB = [MakeRewardHandler EReward_RewardData ''A'' 1]
   \<and> \<not> (\<exists>depth x. BuildRewardData depth CycleTable (CycleTable ''A'') ([], (\<lambda>i. 0)) = Some x)"
  using cycle_never_returns
  by (simp add: CycleTable_def CycleRowA_def CycleRowB_def)

section \<open>Properties of the 32-bit amounts\<close>

text \<open>
  \<open>Int32\<close> leaves the value of an \<open>int32\<close> as it is, yields one, and depends on its
  argument modulo \<open>2 ^ 32\<close> only.
\<close>

lemma Int32_id: "InInt32 x \<Longrightarrow> Int32 x = x"
  by (simp add: Int32_def InInt32_def)

lemma Int32_range: "InInt32 (Int32 x)"
proof -
  have "0 \<le> (x + 2147483648) mod 4294967296" "(x + 2147483648) mod 4294967296 < 4294967296"
    by simp_all
  then show ?thesis by (simp add: Int32_def InInt32_def)
qed

lemma Int32_mod: "Int32 x mod 4294967296 = x mod 4294967296"
proof -
  have "((x + 2147483648) mod 4294967296 - 2147483648) mod 4294967296
        = (x + 2147483648 - 2147483648) mod 4294967296"
    by (rule mod_diff_left_eq)
  then show ?thesis by (simp add: Int32_def)
qed

lemma Int32_cong: "x mod 4294967296 = y mod 4294967296 \<Longrightarrow> Int32 x = Int32 y"
proof -
  assume "x mod 4294967296 = y mod 4294967296"
  then have "(x + 2147483648) mod 4294967296 = (y + 2147483648) mod 4294967296"
    by (rule mod_add_cong) simp
  then show ?thesis by (simp add: Int32_def)
qed

lemma Int32_add_left: "Int32 (Int32 a + b) = Int32 (a + b)"
  by (rule Int32_cong, rule mod_add_cong) (simp_all add: Int32_mod)


lemma Int32_zero: "Int32 0 = 0"
  by (simp add: Int32_def)

section \<open>Properties of the reward simulation\<close>

lemma ClassifyLoop_char:
  "ClassifyLoop w i xs ns sc =
     (take i xs @ filter (Unclassified w) (drop i xs),
      ns @ filter (NonStackableReward w) (drop i xs),
      CountAll sc (filter (StackableReward w) (drop i xs)))"
proof (induction w i xs ns sc rule: ClassifyLoop.induct)
  case (1 w i xs ns sc)
  show ?case
  proof (cases "i < length xs")
    case False
    then show ?thesis by (simp add: ClassifyLoop.simps [of w i xs])
  next
    case True
    then have dr: "drop i xs = xs ! i # drop (Suc i) xs"
      by (simp add: Cons_nth_drop_Suc)
    have rm: "take i (RemoveAt i xs) = take i xs" "drop i (RemoveAt i xs) = drop (Suc i) xs"
      using True by (simp_all add: RemoveAt_def)
    have tk: "take (Suc i) xs = take i xs @ [xs ! i]"
      using True by (simp add: take_Suc_conv_app_nth)
    show ?thesis
    proof (cases "RewardType (xs ! i) \<noteq> EReward_Item")
      case a: True
      then show ?thesis
        using True "1.IH"(1) dr tk
        by (simp add: ClassifyLoop.simps [of w i xs] Unclassified_def NonStackableReward_def
            StackableReward_def)
    next
      case a: False
      show ?thesis
      proof (cases "ItemRowByName w (TypeRowName (xs ! i))")
        case None
        then show ?thesis
          using True a "1.IH"(2) dr tk
          by (simp add: ClassifyLoop.simps [of w i xs] Unclassified_def NonStackableReward_def
              StackableReward_def)
      next
        case (Some d)
        show ?thesis
        proof (cases "IsNonStackable d")
          case b: True
          then show ?thesis
            using True a Some "1.IH"(3) dr rm
            by (simp add: ClassifyLoop.simps [of w i xs] Unclassified_def NonStackableReward_def
                StackableReward_def)
        next
          case b: False
          then show ?thesis
            using True a Some "1.IH"(4) dr rm
            by (simp add: ClassifyLoop.simps [of w i xs] Unclassified_def NonStackableReward_def
                StackableReward_def)
        qed
      qed
    qed
  qed
qed

lemma RebuildStackables_char:
  "RebuildStackables sc src xs = xs @ map (MergedReward src) (filter (\<lambda>p. snd p \<noteq> 0) sc)"
  by (induction sc src xs rule: RebuildStackables.induct) (auto simp: MergedReward_def)

lemma MergeRewards_char:
  "MergeRewards w rs =
     filter (Unclassified w) rs
     @ map (MergedReward (if rs = [] then ERewardSource_None else AcquireSource (hd rs)))
         (filter (\<lambda>p. snd p \<noteq> 0) (CountAll [] (filter (StackableReward w) rs)))
     @ filter (NonStackableReward w) rs"
proof -
  have "(if 0 < length rs then AcquireSource (rs ! 0) else ERewardSource_None)
        = (if rs = [] then ERewardSource_None else AcquireSource (hd rs))"
    by (cases rs) auto
  then show ?thesis
    by (simp add: MergeRewards_def ClassifyLoop_char RebuildStackables_char Let_def)
qed

lemma FindOrAddPlus_keys:
  "map fst (FindOrAddPlus sc k v) = (if k \<in> fst ` set sc then map fst sc else map fst sc @ [k])"
  by (induction sc k v rule: FindOrAddPlus.induct) (auto simp: image_iff)

lemma FindOrAddPlus_distinct:
  "distinct (map fst sc) \<Longrightarrow> distinct (map fst (FindOrAddPlus sc k v))"
  by (simp add: FindOrAddPlus_keys)

lemma FindOrAddPlus_map_of:
  "map_of (FindOrAddPlus sc k v) k' =
     (if k' = k then Some (Int32 ((case map_of sc k of None \<Rightarrow> 0 | Some a \<Rightarrow> a) + v))
      else map_of sc k')"
  by (induction sc k v rule: FindOrAddPlus.induct) auto

lemma CountAll_distinct:
  "distinct (map fst sc) \<Longrightarrow> distinct (map fst (CountAll sc rs))"
  by (induction sc rs rule: CountAll.induct) (auto simp: FindOrAddPlus_distinct)

lemma CountAll_map_of:
  "map_of (CountAll sc rs) k =
     (if k \<in> TypeRowName ` set rs
      then Some (Int32 ((case map_of sc k of None \<Rightarrow> 0 | Some a \<Rightarrow> a)
                        + sum_list (map Amount (filter (\<lambda>r. TypeRowName r = k) rs))))
      else map_of sc k)"
proof (induction sc rs rule: CountAll.induct)
  case (1 sc)
  then show ?case by simp
next
  case (2 sc r rs)
  show ?case
  proof (cases "k \<in> TypeRowName ` set rs")
    case True
    then show ?thesis
      using 2 by (auto simp: FindOrAddPlus_map_of Int32_add_left add.assoc)
  next
    case False
    then have "filter (\<lambda>r. TypeRowName r = k) rs = []"
      by (auto simp: filter_empty_conv)
    with False show ?thesis
      using 2 by (auto simp: FindOrAddPlus_map_of)
  qed
qed

lemma filter_key_distinct:
  "distinct (map fst sc) \<Longrightarrow>
   filter (\<lambda>p. fst p = k) sc = (case map_of sc k of None \<Rightarrow> [] | Some a \<Rightarrow> [(k, a)])"
proof (induction sc)
  case Nil
  then show ?case by simp
next
  case (Cons p sc)
  obtain k' a where p: "p = (k', a)" by (cases p)
  show ?case
  proof (cases "k' = k")
    case True
    then have "k \<notin> fst ` set sc" using Cons.prems p by auto
    then have "filter (\<lambda>p. fst p = k) sc = []"
      by (auto simp: filter_empty_conv)
    with True p show ?thesis by simp
  next
    case False
    with Cons p show ?thesis by simp
  qed
qed

lemma filter_MergedReward:
  "filter (\<lambda>r. RewardType r = EReward_Item \<and> TypeRowName r = k) (map (MergedReward src) ps)
   = map (MergedReward src) (filter (\<lambda>p. fst p = k) ps)"
  by (induction ps) (auto simp: MergedReward_def)

lemma filter_swap: "filter P (filter Q xs) = filter Q (filter P xs)"
  by (induction xs) auto

lemma MergeRewards_stackable_key:
  assumes row: "ItemRowByName w k = Some d" and st: "\<not> IsNonStackable d"
  shows "filter (\<lambda>r. RewardType r = EReward_Item \<and> TypeRowName r = k) (MergeRewards w rs) =
     (let total = Int32 (sum_list (map Amount
                    (filter (\<lambda>r. RewardType r = EReward_Item \<and> TypeRowName r = k) rs)))
      in if total \<noteq> 0
         then [\<lparr>RewardType = EReward_Item, TypeRowName = k, Amount = total,
                AcquireSource = (if rs = [] then ERewardSource_None else AcquireSource (hd rs))\<rparr>]
         else [])"
proof -
  let ?P = "\<lambda>r. RewardType r = EReward_Item \<and> TypeRowName r = k"
  let ?src = "if rs = [] then ERewardSource_None else AcquireSource (hd rs)"
  let ?sc = "CountAll [] (filter (StackableReward w) rs)"
  have un: "filter ?P (filter (Unclassified w) rs) = []"
    using row by (auto simp: filter_empty_conv Unclassified_def)
  have ns: "filter ?P (filter (NonStackableReward w) rs) = []"
    using row st by (auto simp: filter_empty_conv NonStackableReward_def)
  have same: "filter (\<lambda>r. TypeRowName r = k) (filter (StackableReward w) rs) = filter ?P rs"
    using row st by (induction rs) (auto simp: StackableReward_def)
  have dist: "distinct (map fst ?sc)"
    by (rule CountAll_distinct) simp
  have key: "filter (\<lambda>p. fst p = k) ?sc =
       (case map_of ?sc k of None \<Rightarrow> [] | Some a \<Rightarrow> [(k, a)])"
    using filter_key_distinct [OF dist] .
  have mo: "map_of ?sc k =
       (if k \<in> TypeRowName ` set (filter (StackableReward w) rs)
        then Some (Int32 (sum_list (map Amount (filter ?P rs)))) else None)"
    using CountAll_map_of [of "[]" "filter (StackableReward w) rs" k] same by simp
  have empty: "k \<notin> TypeRowName ` set (filter (StackableReward w) rs) \<Longrightarrow>
       sum_list (map Amount (filter ?P rs)) = 0"
  proof -
    assume "k \<notin> TypeRowName ` set (filter (StackableReward w) rs)"
    then have "filter (\<lambda>r. TypeRowName r = k) (filter (StackableReward w) rs) = []"
      by (auto simp: filter_empty_conv)
    with same show ?thesis by simp
  qed
  have "filter ?P (map (MergedReward ?src) (filter (\<lambda>p. snd p \<noteq> 0) ?sc))
        = map (MergedReward ?src) (filter (\<lambda>p. snd p \<noteq> 0) (filter (\<lambda>p. fst p = k) ?sc))"
    unfolding filter_MergedReward
    by (simp only: filter_swap [of "\<lambda>p. fst p = k" "\<lambda>p. snd p \<noteq> 0"])
  also have "\<dots> = (let total = Int32 (sum_list (map Amount (filter ?P rs)))
      in if total \<noteq> 0
         then [\<lparr>RewardType = EReward_Item, TypeRowName = k, Amount = total,
                AcquireSource = ?src\<rparr>]
         else [])"
    using empty by (auto simp: key mo MergedReward_def Let_def Int32_zero)
  finally show ?thesis
    using un ns by (simp add: MergeRewards_char)
qed

lemmas world_defs =
  FullWorld_def SwordRow_def PotionRow_def MakeRewardHandler_def Int32_def
  SimulateRewards_def SimulateRewards_outcome_def MergeRewards_char
  Unclassified_def NonStackableReward_def StackableReward_def MergedReward_def Let_def

text \<open>
  Claim C6. With a capacity of 5 and a slot count of 5 after the updated items, every
  reward admissible and the inventory checked: the batch of one unit (without acquire
  source) of an item that does not stack, needs a slot and is not held is refused at the capacity check
  (\<open>InventoryFull\<close>); the batch of one unit of an item that stacks, needs a slot and is
  held is accepted, its slot count unchanged. Both batches come back as they were.
\<close>

theorem capacity_boundary:
  assumes cap: "GetMaxCapacity w = 5"
    and used: "UpdatedItemSlots upd (GetItemSlotCount w) = 5"
    and adm: "\<forall>r. Simulate w r"
    and rowA: "ItemRowByName w a = Some da" and nsA: "IsNonStackable da"
    and slA: "RequiresInventorySlot da" and newA: "GetAmount w a = 0"
    and rowB: "ItemRowByName w b = Some db" and stB: "\<not> IsNonStackable db"
    and slB: "RequiresInventorySlot db" and heldB: "0 < GetAmount w b"
  shows "SimulateRewards_outcome w [\<lparr>RewardType = EReward_Item, TypeRowName = a, Amount = 1,
              AcquireSource = ERewardSource_None\<rparr>] upd True
           = (InventoryFull, [\<lparr>RewardType = EReward_Item, TypeRowName = a, Amount = 1,
              AcquireSource = ERewardSource_None\<rparr>])
     \<and> SimulateRewards w [\<lparr>RewardType = EReward_Item, TypeRowName = a, Amount = 1,
              AcquireSource = ERewardSource_None\<rparr>] upd True
           = (False, [\<lparr>RewardType = EReward_Item, TypeRowName = a, Amount = 1,
              AcquireSource = ERewardSource_None\<rparr>])
     \<and> SimulateRewards_outcome w [\<lparr>RewardType = EReward_Item, TypeRowName = b, Amount = 1,
              AcquireSource = ERewardSource_None\<rparr>] upd True
           = (SimulateOk, [\<lparr>RewardType = EReward_Item, TypeRowName = b, Amount = 1,
              AcquireSource = ERewardSource_None\<rparr>])
     \<and> SimulateRewards w [\<lparr>RewardType = EReward_Item, TypeRowName = b, Amount = 1,
              AcquireSource = ERewardSource_None\<rparr>] upd True
           = (True, [\<lparr>RewardType = EReward_Item, TypeRowName = b, Amount = 1,
              AcquireSource = ERewardSource_None\<rparr>])"
proof -
  have ma: "MergeRewards w [\<lparr>RewardType = EReward_Item, TypeRowName = a, Amount = 1,
              AcquireSource = ERewardSource_None\<rparr>] = [\<lparr>RewardType = EReward_Item, TypeRowName = a, Amount = 1,
              AcquireSource = ERewardSource_None\<rparr>]"
    using rowA nsA
    by (simp add: MergeRewards_char Unclassified_def NonStackableReward_def StackableReward_def
        MakeRewardHandler_def)
  have mb: "MergeRewards w [\<lparr>RewardType = EReward_Item, TypeRowName = b, Amount = 1,
              AcquireSource = ERewardSource_None\<rparr>] = [\<lparr>RewardType = EReward_Item, TypeRowName = b, Amount = 1,
              AcquireSource = ERewardSource_None\<rparr>]"
    using rowB stB
    by (simp add: MergeRewards_char Unclassified_def NonStackableReward_def StackableReward_def
        MergedReward_def Int32_def)
  have la: "RewardSlotLoop w True 5 [\<lparr>RewardType = EReward_Item, TypeRowName = a, Amount = 1,
              AcquireSource = ERewardSource_None\<rparr>] 5 = InventoryFull"
    using adm rowA nsA slA by (simp add: Int32_def)
  have lb: "RewardSlotLoop w True 5 [\<lparr>RewardType = EReward_Item, TypeRowName = b, Amount = 1,
              AcquireSource = ERewardSource_None\<rparr>] 5 = SimulateOk"
    using adm rowB stB slB heldB by (simp add: Int32_def)
  show ?thesis
    using ma mb la lb cap used
    by (simp add: SimulateRewards_def SimulateRewards_outcome_def)
qed

text \<open>
  The theorem in the example world: the sword is refused, the potion accepted.
\<close>

theorem capacity_boundary_witness:
  "GetMaxCapacity FullWorld = 5 \<and> UpdatedItemSlots [] (GetItemSlotCount FullWorld) = 5
   \<and> ItemRowByName FullWorld ''Sword'' = Some SwordRow \<and> IsNonStackable SwordRow
   \<and> GetAmount FullWorld ''Sword'' = 0
   \<and> ItemRowByName FullWorld ''Potion'' = Some PotionRow \<and> \<not> IsNonStackable PotionRow
   \<and> 0 < GetAmount FullWorld ''Potion''
   \<and> SimulateRewards FullWorld [\<lparr>RewardType = EReward_Item, TypeRowName = ''Sword'', Amount = 1,
              AcquireSource = ERewardSource_None\<rparr>] [] True
       = (False, [\<lparr>RewardType = EReward_Item, TypeRowName = ''Sword'', Amount = 1,
              AcquireSource = ERewardSource_None\<rparr>])
   \<and> SimulateRewards FullWorld [\<lparr>RewardType = EReward_Item, TypeRowName = ''Potion'', Amount = 1,
              AcquireSource = ERewardSource_None\<rparr>] [] True
       = (True, [\<lparr>RewardType = EReward_Item, TypeRowName = ''Potion'', Amount = 1,
              AcquireSource = ERewardSource_None\<rparr>])"
proof -
  have h: "GetMaxCapacity FullWorld = 5" "UpdatedItemSlots [] (GetItemSlotCount FullWorld) = 5"
    "\<forall>r. Simulate FullWorld r"
    "ItemRowByName FullWorld ''Sword'' = Some SwordRow" "IsNonStackable SwordRow"
    "RequiresInventorySlot SwordRow" "GetAmount FullWorld ''Sword'' = 0"
    "ItemRowByName FullWorld ''Potion'' = Some PotionRow" "\<not> IsNonStackable PotionRow"
    "RequiresInventorySlot PotionRow" "0 < GetAmount FullWorld ''Potion''"
    by (simp_all add: FullWorld_def SwordRow_def PotionRow_def)
  from capacity_boundary [OF h] h show ?thesis by blast
qed

lemma MergeRewards_cancel:
  assumes rowA: "ItemRowByName w a = Some da" and stA: "\<not> IsNonStackable da"
  shows "MergeRewards w
           [\<lparr>RewardType = EReward_Item, TypeRowName = a, Amount = 3, AcquireSource = src\<rparr>,
            \<lparr>RewardType = EReward_Item, TypeRowName = a, Amount = - 3, AcquireSource = src'\<rparr>,
            \<lparr>RewardType = EReward_Item, TypeRowName = b, Amount = 1, AcquireSource = src\<rparr>]
         = MergeRewards w
           [\<lparr>RewardType = EReward_Item, TypeRowName = b, Amount = 1, AcquireSource = src\<rparr>]"
proof (cases "b = a")
  case True
  with rowA stA show ?thesis
    by (simp add: MergeRewards_char Unclassified_def NonStackableReward_def
        StackableReward_def MergedReward_def Int32_def)
next
  case False
  show ?thesis
  proof (cases "ItemRowByName w b")
    case None
    with False rowA stA show ?thesis
      by (simp add: MergeRewards_char Unclassified_def NonStackableReward_def
          StackableReward_def MergedReward_def Int32_def)
  next
    case (Some db)
    with False rowA stA show ?thesis
      by (cases "IsNonStackable db")
        (simp_all add: MergeRewards_char Unclassified_def NonStackableReward_def
          StackableReward_def MergedReward_def Int32_def)
  qed
qed

text \<open>
  Claim C7. For every world, list of updated items and capacity setting, the batch of +3
  and -3 of a stackable item A followed by +1 of an item B, the grants of the batch
  carrying one acquire source, is simulated as the batch of +1 of B alone: the same
  outcome, the same value returned and the same adjusted batch. In general the item
  rewards of a stackable key in the adjusted batch are the single reward of the summed
  amounts when the sum is not zero, and none when it is zero. The amounts are
  \<open>int32\<close> and so is their sum: it is the sum of the integers whenever that is the value
  of an \<open>int32\<close>.
\<close>

theorem merge_cancelling_grants:
  assumes rowA: "ItemRowByName w a = Some da" and stA: "\<not> IsNonStackable da"
  shows "SimulateRewards_outcome w
           [\<lparr>RewardType = EReward_Item, TypeRowName = a, Amount = 3, AcquireSource = src\<rparr>,
            \<lparr>RewardType = EReward_Item, TypeRowName = a, Amount = - 3, AcquireSource = src'\<rparr>,
            \<lparr>RewardType = EReward_Item, TypeRowName = b, Amount = 1, AcquireSource = src\<rparr>]
           upd chk
         = SimulateRewards_outcome w
           [\<lparr>RewardType = EReward_Item, TypeRowName = b, Amount = 1, AcquireSource = src\<rparr>]
           upd chk
     \<and> SimulateRewards w
           [\<lparr>RewardType = EReward_Item, TypeRowName = a, Amount = 3, AcquireSource = src\<rparr>,
            \<lparr>RewardType = EReward_Item, TypeRowName = a, Amount = - 3, AcquireSource = src'\<rparr>,
            \<lparr>RewardType = EReward_Item, TypeRowName = b, Amount = 1, AcquireSource = src\<rparr>]
           upd chk
         = SimulateRewards w
           [\<lparr>RewardType = EReward_Item, TypeRowName = b, Amount = 1, AcquireSource = src\<rparr>]
           upd chk
     \<and> (\<forall>rs k d. ItemRowByName w k = Some d \<and> \<not> IsNonStackable d \<longrightarrow>
           filter (\<lambda>r. RewardType r = EReward_Item \<and> TypeRowName r = k)
             (snd (SimulateRewards w rs upd chk)) =
           (let total = Int32 (sum_list (map Amount
                          (filter (\<lambda>r. RewardType r = EReward_Item \<and> TypeRowName r = k) rs)))
            in if total \<noteq> 0
               then [\<lparr>RewardType = EReward_Item, TypeRowName = k, Amount = total,
                      AcquireSource =
                        (if rs = [] then ERewardSource_None else AcquireSource (hd rs))\<rparr>]
               else []))
     \<and> (\<forall>rs k d. ItemRowByName w k = Some d \<and> \<not> IsNonStackable d
           \<and> InInt32 (sum_list (map Amount
                (filter (\<lambda>r. RewardType r = EReward_Item \<and> TypeRowName r = k) rs))) \<longrightarrow>
           filter (\<lambda>r. RewardType r = EReward_Item \<and> TypeRowName r = k)
             (snd (SimulateRewards w rs upd chk)) =
           (let total = sum_list (map Amount
                          (filter (\<lambda>r. RewardType r = EReward_Item \<and> TypeRowName r = k) rs))
            in if total \<noteq> 0
               then [\<lparr>RewardType = EReward_Item, TypeRowName = k, Amount = total,
                      AcquireSource =
                        (if rs = [] then ERewardSource_None else AcquireSource (hd rs))\<rparr>]
               else []))"
proof (intro conjI allI impI)
  show "SimulateRewards_outcome w
           [\<lparr>RewardType = EReward_Item, TypeRowName = a, Amount = 3, AcquireSource = src\<rparr>,
            \<lparr>RewardType = EReward_Item, TypeRowName = a, Amount = - 3, AcquireSource = src'\<rparr>,
            \<lparr>RewardType = EReward_Item, TypeRowName = b, Amount = 1, AcquireSource = src\<rparr>]
           upd chk
         = SimulateRewards_outcome w
           [\<lparr>RewardType = EReward_Item, TypeRowName = b, Amount = 1, AcquireSource = src\<rparr>]
           upd chk"
    by (simp only: SimulateRewards_outcome_def MergeRewards_cancel [OF rowA stA])
  then show "SimulateRewards w
           [\<lparr>RewardType = EReward_Item, TypeRowName = a, Amount = 3, AcquireSource = src\<rparr>,
            \<lparr>RewardType = EReward_Item, TypeRowName = a, Amount = - 3, AcquireSource = src'\<rparr>,
            \<lparr>RewardType = EReward_Item, TypeRowName = b, Amount = 1, AcquireSource = src\<rparr>]
           upd chk
         = SimulateRewards w
           [\<lparr>RewardType = EReward_Item, TypeRowName = b, Amount = 1, AcquireSource = src\<rparr>]
           upd chk"
    by (simp only: SimulateRewards_def)
next
  fix rs k d
  assume k: "ItemRowByName w k = Some d \<and> \<not> IsNonStackable d"
  have "snd (SimulateRewards w rs upd chk) = MergeRewards w rs"
    by (simp add: SimulateRewards_def SimulateRewards_outcome_def Let_def)
  then show "filter (\<lambda>r. RewardType r = EReward_Item \<and> TypeRowName r = k)
             (snd (SimulateRewards w rs upd chk)) =
           (let total = Int32 (sum_list (map Amount
                          (filter (\<lambda>r. RewardType r = EReward_Item \<and> TypeRowName r = k) rs)))
            in if total \<noteq> 0
               then [\<lparr>RewardType = EReward_Item, TypeRowName = k, Amount = total,
                      AcquireSource =
                        (if rs = [] then ERewardSource_None else AcquireSource (hd rs))\<rparr>]
               else [])"
    using MergeRewards_stackable_key [of w k d rs] k by simp
next
  fix rs :: "FRewardHandler list" and k d
  assume k: "ItemRowByName w k = Some d \<and> \<not> IsNonStackable d
           \<and> InInt32 (sum_list (map Amount
                (filter (\<lambda>r. RewardType r = EReward_Item \<and> TypeRowName r = k) rs)))"
  have "snd (SimulateRewards w rs upd chk) = MergeRewards w rs"
    by (simp add: SimulateRewards_def SimulateRewards_outcome_def Let_def)
  then show "filter (\<lambda>r. RewardType r = EReward_Item \<and> TypeRowName r = k)
             (snd (SimulateRewards w rs upd chk)) =
           (let total = sum_list (map Amount
                          (filter (\<lambda>r. RewardType r = EReward_Item \<and> TypeRowName r = k) rs))
            in if total \<noteq> 0
               then [\<lparr>RewardType = EReward_Item, TypeRowName = k, Amount = total,
                      AcquireSource =
                        (if rs = [] then ERewardSource_None else AcquireSource (hd rs))\<rparr>]
               else [])"
    using MergeRewards_stackable_key [of w k d rs] k by (simp add: Int32_id)
qed

text \<open>
  The theorem in the example world, for potions and a herb, all without acquire source:
  both batches are refused for want of a slot and leave the herb; and two grants of four
  and of three potions come back as one grant of seven.
\<close>

theorem merge_cancelling_grants_witness:
  "ItemRowByName FullWorld ''Potion'' = Some PotionRow \<and> \<not> IsNonStackable PotionRow
   \<and> SimulateRewards FullWorld
        [\<lparr>RewardType = EReward_Item, TypeRowName = ''Potion'', Amount = 3,
          AcquireSource = ERewardSource_None\<rparr>,
         \<lparr>RewardType = EReward_Item, TypeRowName = ''Potion'', Amount = - 3,
          AcquireSource = ERewardSource_None\<rparr>,
         \<lparr>RewardType = EReward_Item, TypeRowName = ''Herb'', Amount = 1,
          AcquireSource = ERewardSource_None\<rparr>] [] True
       = SimulateRewards FullWorld
        [\<lparr>RewardType = EReward_Item, TypeRowName = ''Herb'', Amount = 1,
          AcquireSource = ERewardSource_None\<rparr>] [] True
   \<and> SimulateRewards FullWorld
        [\<lparr>RewardType = EReward_Item, TypeRowName = ''Herb'', Amount = 1,
          AcquireSource = ERewardSource_None\<rparr>] [] True
       = (False, [\<lparr>RewardType = EReward_Item, TypeRowName = ''Herb'', Amount = 1,
                   AcquireSource = ERewardSource_None\<rparr>])
   \<and> InInt32 (sum_list (map Amount
        (filter (\<lambda>r. RewardType r = EReward_Item \<and> TypeRowName r = ''Potion'')
           [MakeRewardHandler EReward_Item ''Potion'' 4,
            MakeRewardHandler EReward_Item ''Potion'' 3])))
   \<and> filter (\<lambda>r. RewardType r = EReward_Item \<and> TypeRowName r = ''Potion'')
        (snd (SimulateRewards FullWorld
           [MakeRewardHandler EReward_Item ''Potion'' 4,
            MakeRewardHandler EReward_Item ''Potion'' 3] [] True))
       = [MakeRewardHandler EReward_Item ''Potion'' 7]"
proof -
  have row: "ItemRowByName FullWorld ''Potion'' = Some PotionRow"
    by (simp add: FullWorld_def)
  have st: "\<not> IsNonStackable PotionRow"
    by (simp add: PotionRow_def)
  have r: "SimulateRewards FullWorld
        [\<lparr>RewardType = EReward_Item, TypeRowName = ''Herb'', Amount = 1,
          AcquireSource = ERewardSource_None\<rparr>] [] True
       = (False, [\<lparr>RewardType = EReward_Item, TypeRowName = ''Herb'', Amount = 1,
                   AcquireSource = ERewardSource_None\<rparr>])"
    by (simp add: world_defs)
  have fits: "InInt32 (sum_list (map Amount
        (filter (\<lambda>r. RewardType r = EReward_Item \<and> TypeRowName r = ''Potion'')
           [MakeRewardHandler EReward_Item ''Potion'' 4,
            MakeRewardHandler EReward_Item ''Potion'' 3])))"
    by (simp add: MakeRewardHandler_def InInt32_def)
  note inst = merge_cancelling_grants [OF row st,
      of ERewardSource_None ERewardSource_None "''Herb''" "[]" True]
  note general = inst [THEN conjunct2, THEN conjunct2, THEN conjunct2, THEN spec, THEN spec,
      THEN spec, THEN mp, OF conjI [OF row conjI [OF st fits]]]
  have merged: "filter (\<lambda>r. RewardType r = EReward_Item \<and> TypeRowName r = ''Potion'')
        (snd (SimulateRewards FullWorld
           [MakeRewardHandler EReward_Item ''Potion'' 4,
            MakeRewardHandler EReward_Item ''Potion'' 3] [] True))
       = [MakeRewardHandler EReward_Item ''Potion'' 7]"
    using general by (simp add: MakeRewardHandler_def)
  from inst [THEN conjunct2, THEN conjunct1] row st r fits merged show ?thesis by simp
qed





section \<open>Properties of the committed amounts\<close>

text \<open>
  The update path. For an item whose row exists and can stack (\<open>MaxStackAmount > 1\<close>),
  and an update that leaves the sum of the previous amount and the update within
  \<open>int32\<close>, \<open>OnUpdateItemAmount\<close> sets the amount of the one row of the item to the
  previous amount plus the update, clamped into \<open>[0, MaxStackAmount]\<close>, and adds one
  query for that row: the update of the amount when it is positive, the deletion of the
  row when it is 0. \<open>AddInventoryItem\<close> does the same, and runs no query at once, when
  the item is held. Removing all of an item (stackable or not) deletes its item row and
  its inventory row, and its equipment row when an equipment references the item.
\<close>

lemma stackable_update_clamps:
  assumes row: "ItemRowByID w (ItemID it) = Some d" and st: "1 < MaxStackAmount d"
    and fits: "InInt32 (ItemAmount it + upd)"
    and rowE: "ItemRowByID w (ItemID eq) = Some e" and stE: "0 \<le> MaxStackAmount e"
    and held: "0 \<le> ItemAmount eq" and heldfits: "InInt32 (ItemAmount eq)"
  shows "(let n = max 0 (min (MaxStackAmount d) (ItemAmount it + upd))
          in 0 \<le> n \<and> n \<le> MaxStackAmount d
           \<and> OnUpdateItemAmount w it upd task =
               Inr (it\<lparr>ItemAmount := n\<rparr>,
                    task @ [if 0 < n then UpdateItemAmount n (ItemUID it)
                            else DeleteItem (ItemUID it)])
           \<and> (DuplicateNetItemByID w (ItemID it) = Some it \<longrightarrow>
                AddInventoryItem w (ItemID it) upd task =
                  Inr (it\<lparr>ItemAmount := n\<rparr>,
                       task @ [if 0 < n then UpdateItemAmount n (ItemUID it)
                               else DeleteItem (ItemUID it)], [])))
     \<and> RemoveInventoryItem w (Some eq) (ItemAmount eq) task =
         Inr (True, Some (eq\<lparr>ItemAmount := 0\<rparr>),
              task @ [DeleteItem (ItemUID eq), DeleteInventory (ItemUID eq)]
              @ (if GetEquipmentBy w (ItemID eq)
                 then [DeleteEquipment (AccountID w) (ItemUID eq)] else []))"
proof -
  let ?n = "max 0 (min (MaxStackAmount d) (ItemAmount it + upd))"
  have c: "Clamp (Int32 (ItemAmount it + upd)) 0 (MaxStackAmount d) = ?n"
    using st by (auto simp: Clamp_def Int32_id [OF fits])
  have bounds: "0 \<le> ?n \<and> ?n \<le> MaxStackAmount d"
    using st by auto
  have upd: "OnUpdateItemAmount w it upd task =
               Inr (it\<lparr>ItemAmount := ?n\<rparr>,
                    task @ [if 0 < ?n then UpdateItemAmount ?n (ItemUID it)
                            else DeleteItem (ItemUID it)])"
    using row by (simp add: OnUpdateItemAmount_def c Let_def)
  have add: "DuplicateNetItemByID w (ItemID it) = Some it \<longrightarrow>
                AddInventoryItem w (ItemID it) upd task =
                  Inr (it\<lparr>ItemAmount := ?n\<rparr>,
                       task @ [if 0 < ?n then UpdateItemAmount ?n (ItemUID it)
                               else DeleteItem (ItemUID it)], [])"
    using row st by (simp add: AddInventoryItem_def upd Let_def)
  have neg: "Int32 (- ItemAmount eq) = - ItemAmount eq"
    using held heldfits by (simp add: Int32_id InInt32_def)
  have ce: "Clamp 0 0 (MaxStackAmount e) = 0"
    using stE by (auto simp: Clamp_def)
  have p2: "RemoveInventoryItem w (Some eq) (ItemAmount eq) task =
         Inr (True, Some (eq\<lparr>ItemAmount := 0\<rparr>),
              task @ [DeleteItem (ItemUID eq), DeleteInventory (ItemUID eq)]
              @ (if GetEquipmentBy w (ItemID eq)
                 then [DeleteEquipment (AccountID w) (ItemUID eq)] else []))"
    using rowE held
    by (simp add: RemoveInventoryItem_def OnUpdateItemAmount_def neg ce Let_def Int32_zero)
  from bounds upd add p2 show ?thesis by (simp add: Let_def)
qed

text \<open>
  The insert path. For an item whose row exists and that cannot stack or is not held, and
  that is not an equipment, \<open>AddInventoryItem\<close> makes a row with the amount as it is
  given: it is not clamped, and an amount of 0 is not deleted.
\<close>

lemma AddInventoryItem_inserts:
  assumes row: "ItemRowByID w i = Some d"
    and new: "\<not> 1 < MaxStackAmount d \<or> DuplicateNetItemByID w i = None"
    and plain: "GetItemType w \<lparr>ItemID = i, ItemUID = GetLastInsertRowId w, ItemAmount = n,
                  ItemData = Some d, Options = []\<rparr> \<noteq> EItem_Equip"
  shows "AddInventoryItem w i n task =
     Inr (\<lparr>ItemID = i, ItemUID = GetLastInsertRowId w, ItemAmount = n, ItemData = Some d,
           Options = []\<rparr>,
          task @ [InsertInventory (AccountID w) (GetLastInsertRowId w)],
          [InsertItem (AccountID w) i n])"
  using row new plain
  by (auto simp: AddInventoryItem_def NewInventoryItem_def BuildOptions_def Let_def)

text \<open>
  The example world: 200 potions on top of the 5 held are clamped to the stack of 99,
  removing the three swords deletes item, inventory and equipment rows, and a new sword
  gets its two options.
\<close>

lemma commit_examples:
  "AddInventoryItem FullWorld 2 200 [] =
       Inr (HeldPotions\<lparr>ItemAmount := 99\<rparr>, [UpdateItemAmount 99 20], [])
   \<and> OnUpdateItemAmount FullWorld HeldPotions (- 5) [] =
       Inr (HeldPotions\<lparr>ItemAmount := 0\<rparr>, [DeleteItem 20])
   \<and> RemoveInventoryItem FullWorld (Some HeldSwords) 3 [] =
       Inr (True, Some (HeldSwords\<lparr>ItemAmount := 0\<rparr>),
            [DeleteItem 10, DeleteInventory 10, DeleteEquipment 42 10])
   \<and> AddInventoryItem FullWorld 1 1 [] =
       Inr (\<lparr>ItemID = 1, ItemUID = 77, ItemAmount = 1, ItemData = Some SwordRow,
             Options = [\<lparr>OptionID = 7, OptionValue = 15\<rparr>, \<lparr>OptionID = 9, OptionValue = 4\<rparr>]\<rparr>,
            [InsertInventory 42 77, InsertItemOption 42 77 7 15, InsertItemOption 42 77 9 4],
            [InsertItem 42 1 1])"
  by (simp add: AddInventoryItem_def NewInventoryItem_def BuildOptions_def
      OnUpdateItemAmount_def RemoveInventoryItem_def Clamp_def Int32_def FullWorld_def
      HeldPotions_def HeldSwords_def SwordRow_def PotionRow_def Let_def)

text \<open>
  Claim C9 at a failing input. Herbs (item 3) stack up to 99 and none is held. Committing
  a grant of 200 herbs inserts a row of 200 herbs, where the previous amount plus the
  grant, clamped into \<open>[0, 99]\<close>, is 99; committing a grant of 0 herbs inserts a row
  with the amount 0. The same grant of 200 for potions (item 2), of which 5 are held,
  goes through \<open>OnUpdateItemAmount\<close> and is clamped to 99.
\<close>

theorem stackable_insert_unclamped:
  "ItemRowByID FullWorld 3 = Some PotionRow \<and> MaxStackAmount PotionRow = 99
   \<and> DuplicateNetItemByID FullWorld 3 = None
   \<and> AddInventoryItem FullWorld 3 200 [] =
       Inr (\<lparr>ItemID = 3, ItemUID = 77, ItemAmount = 200, ItemData = Some PotionRow,
             Options = []\<rparr>,
            [InsertInventory 42 77], [InsertItem 42 3 200])
   \<and> Clamp (Int32 (0 + 200)) 0 (MaxStackAmount PotionRow) = 99
   \<and> AddInventoryItem FullWorld 3 0 [] =
       Inr (\<lparr>ItemID = 3, ItemUID = 77, ItemAmount = 0, ItemData = Some PotionRow,
             Options = []\<rparr>,
            [InsertInventory 42 77], [InsertItem 42 3 0])
   \<and> DuplicateNetItemByID FullWorld 2 = Some HeldPotions \<and> ItemAmount HeldPotions = 5
   \<and> AddInventoryItem FullWorld 2 200 [] =
       Inr (HeldPotions\<lparr>ItemAmount := 99\<rparr>, [UpdateItemAmount 99 20], [])"
  by (simp add: AddInventoryItem_def NewInventoryItem_def BuildOptions_def
      OnUpdateItemAmount_def Clamp_def Int32_def FullWorld_def HeldPotions_def PotionRow_def
      Let_def)

text \<open>
  Claim C10, as the code has it. \<open>RemoveInventoryItem\<close> returns \<open>false\<close> and changes
  neither the item nor the task when the item is null, the amount to remove is negative,
  or the amount to remove exceeds a held amount that is not negative (amounts are
  \<open>int32\<close>, and more generally it is so whenever the difference of the two is the value
  of an \<open>int32\<close>). Otherwise, when the item has a row whose stack limit is not negative,
  it returns \<open>true\<close> and leaves the held amount minus the removed amount, cut off at the
  stack limit of the row: the amount is decremented by the removed amount whenever the
  difference does not exceed the stack limit.
\<close>

theorem RemoveInventoryItem_guard:
  "RemoveInventoryItem w None rm task = Inr (False, None, task)
   \<and> (rm < 0 \<longrightarrow> RemoveInventoryItem w (Some it) rm task = Inr (False, Some it, task))
   \<and> (ItemAmount it < rm \<and> InInt32 (ItemAmount it - rm) \<longrightarrow>
        RemoveInventoryItem w (Some it) rm task = Inr (False, Some it, task))
   \<and> (ItemAmount it < rm \<and> 0 \<le> ItemAmount it \<and> InInt32 (ItemAmount it) \<and> InInt32 rm \<longrightarrow>
        RemoveInventoryItem w (Some it) rm task = Inr (False, Some it, task))
   \<and> (0 \<le> rm \<and> rm \<le> ItemAmount it \<and> InInt32 (ItemAmount it)
        \<and> ItemRowByID w (ItemID it) = Some d \<and> 0 \<le> MaxStackAmount d \<longrightarrow>
        (\<exists>task'. RemoveInventoryItem w (Some it) rm task =
           Inr (True, Some (it\<lparr>ItemAmount := min (ItemAmount it - rm) (MaxStackAmount d)\<rparr>),
                task'))
        \<and> (ItemAmount it - rm \<le> MaxStackAmount d \<longrightarrow>
             (\<exists>task'. RemoveInventoryItem w (Some it) rm task =
                Inr (True, Some (it\<lparr>ItemAmount := ItemAmount it - rm\<rparr>), task'))))"
proof (intro conjI impI)
  show "RemoveInventoryItem w None rm task = Inr (False, None, task)"
    by (simp add: RemoveInventoryItem_def)
next
  assume "rm < 0"
  then show "RemoveInventoryItem w (Some it) rm task = Inr (False, Some it, task)"
    by (simp add: RemoveInventoryItem_def)
next
  assume "ItemAmount it < rm \<and> InInt32 (ItemAmount it - rm)"
  then show "RemoveInventoryItem w (Some it) rm task = Inr (False, Some it, task)"
    by (simp add: RemoveInventoryItem_def Int32_id)
next
  assume a: "ItemAmount it < rm \<and> 0 \<le> ItemAmount it \<and> InInt32 (ItemAmount it) \<and> InInt32 rm"
  then have "InInt32 (ItemAmount it - rm)"
    by (simp add: InInt32_def)
  with a show "RemoveInventoryItem w (Some it) rm task = Inr (False, Some it, task)"
    by (simp add: RemoveInventoryItem_def Int32_id)
next
  assume a: "0 \<le> rm \<and> rm \<le> ItemAmount it \<and> InInt32 (ItemAmount it)
        \<and> ItemRowByID w (ItemID it) = Some d \<and> 0 \<le> MaxStackAmount d"
  then have r1: "InInt32 (ItemAmount it - rm)" and r2: "InInt32 (- rm)"
    by (simp_all add: InInt32_def)
  have g: "\<not> Int32 (ItemAmount it - rm) < 0"
    using a by (simp add: Int32_id [OF r1])
  have n: "Int32 (ItemAmount it + Int32 (- rm)) = ItemAmount it - rm"
    using r1 by (simp add: Int32_id [OF r2] Int32_id)
  have c: "Clamp (ItemAmount it - rm) 0 (MaxStackAmount d)
                = min (ItemAmount it - rm) (MaxStackAmount d)"
    using a by (auto simp: Clamp_def)
  show m: "\<exists>task'. RemoveInventoryItem w (Some it) rm task =
           Inr (True, Some (it\<lparr>ItemAmount := min (ItemAmount it - rm) (MaxStackAmount d)\<rparr>),
                task')"
    using a g by (simp add: RemoveInventoryItem_def OnUpdateItemAmount_def n c Let_def)
  assume "ItemAmount it - rm \<le> MaxStackAmount d"
  then have "min (ItemAmount it - rm) (MaxStackAmount d) = ItemAmount it - rm" by simp
  with m show "\<exists>task'. RemoveInventoryItem w (Some it) rm task =
                Inr (True, Some (it\<lparr>ItemAmount := ItemAmount it - rm\<rparr>), task')"
    by simp
qed

text \<open>
  The theorem in the example world: no item, a negative amount and six of five potions
  are refused; two of five potions are removed.
\<close>

theorem RemoveInventoryItem_guard_witness:
  "RemoveInventoryItem FullWorld None 1 [] = Inr (False, None, [])
   \<and> RemoveInventoryItem FullWorld (Some HeldPotions) (- 1) [] = Inr (False, Some HeldPotions, [])
   \<and> ItemAmount HeldPotions < 6 \<and> 0 \<le> ItemAmount HeldPotions
   \<and> InInt32 (ItemAmount HeldPotions) \<and> InInt32 6 \<and> InInt32 (ItemAmount HeldPotions - 6)
   \<and> RemoveInventoryItem FullWorld (Some HeldPotions) 6 [] = Inr (False, Some HeldPotions, [])
   \<and> ItemRowByID FullWorld (ItemID HeldPotions) = Some PotionRow
   \<and> 0 \<le> MaxStackAmount PotionRow \<and> ItemAmount HeldPotions - 2 \<le> MaxStackAmount PotionRow
   \<and> (\<exists>task'. RemoveInventoryItem FullWorld (Some HeldPotions) 2 [] =
         Inr (True, Some (HeldPotions\<lparr>ItemAmount := ItemAmount HeldPotions - 2\<rparr>), task'))"
proof -
  have h: "ItemRowByID FullWorld (ItemID HeldPotions) = Some PotionRow"
    "0 \<le> MaxStackAmount PotionRow" "ItemAmount HeldPotions - 2 \<le> MaxStackAmount PotionRow"
    "(0::int) \<le> 2" "2 \<le> ItemAmount HeldPotions" "ItemAmount HeldPotions < 6"
    "0 \<le> ItemAmount HeldPotions" "InInt32 (ItemAmount HeldPotions)" "InInt32 6"
    "InInt32 (ItemAmount HeldPotions - 6)"
    by (simp_all add: FullWorld_def HeldPotions_def PotionRow_def InInt32_def)
  from RemoveInventoryItem_guard [of FullWorld 1 "[]" HeldPotions PotionRow]
    RemoveInventoryItem_guard [of FullWorld "- 1" "[]" HeldPotions PotionRow]
    RemoveInventoryItem_guard [of FullWorld 6 "[]" HeldPotions PotionRow]
    RemoveInventoryItem_guard [of FullWorld 2 "[]" HeldPotions PotionRow] h
  show ?thesis by simp
qed

text \<open>
  Claim C10 as stated fails for a row that holds more than its stack limit: one of three
  swords (stack limit 1) is removed, and one sword is left, not two.
\<close>

theorem RemoveInventoryItem_clamp_counterexample:
  "ItemAmount HeldSwords = 3
   \<and> RemoveInventoryItem FullWorld (Some HeldSwords) 1 [] =
       Inr (True, Some (HeldSwords\<lparr>ItemAmount := 1\<rparr>), [UpdateItemAmount 1 10])
   \<and> ItemAmount (HeldSwords\<lparr>ItemAmount := 1\<rparr>) \<noteq> ItemAmount HeldSwords - 1"
  by (simp add: RemoveInventoryItem_def OnUpdateItemAmount_def Clamp_def FullWorld_def
      HeldSwords_def SwordRow_def Let_def Int32_def)

end
